theory Spec2Isabelle
  imports Complex_Main "HOL-Library.Word"
begin

unbundle bit_operations_syntax

section \<open>JavaScript values and the built-ins the validators rely on\<close>

text \<open>
  MCP payloads are untyped JSON. A parsed payload is a \<open>json\<close> value; a property that is
  absent (JavaScript's \<open>undefined\<close>) is \<open>None\<close>. A number is the real value of the
  double that JavaScript holds, so that comparing two numbers is comparing two reals;
  the infinities are outside the model and NaN is written \<open>None\<close> where it can arise.
  A string is a list of code units below 256 (the Latin-1 range): \<open>trim\<close> and
  \<open>toLowerCase\<close> are JavaScript's on such strings.
\<close>

datatype json =
    JNull
  | JBool bool
  | JNum real
  | JStr string
  | JArr "json list"
  | JObj "(string \<times> json) list"

datatype error = TypeError | PayloadTooLarge | ScanApiFailure

text \<open>Truthiness, as used by \<open>!x\<close>, \<open>x || y\<close> and \<open>if (x)\<close>.\<close>

fun truthy :: "json option \<Rightarrow> bool" where
  "truthy None = False"
| "truthy (Some JNull) = False"
| "truthy (Some (JBool b)) = b"
| "truthy (Some (JNum n)) = (n \<noteq> 0)"
| "truthy (Some (JStr s)) = (s \<noteq> [])"
| "truthy (Some (JArr xs)) = True"
| "truthy (Some (JObj kvs)) = True"

text \<open>
  Property read \<open>v.k\<close> for the keys the code reads (none of them is inherited by objects,
  arrays or primitives). Reading a property of \<open>null\<close> throws, which \<open>prop_of\<close> makes
  explicit.
\<close>

fun get_prop :: "json \<Rightarrow> string \<Rightarrow> json option" where
  "get_prop (JObj kvs) k = map_of kvs k"
| "get_prop v k = None"

fun prop_of :: "json \<Rightarrow> string \<Rightarrow> error + json option" where
  "prop_of JNull k = Inl TypeError"
| "prop_of v k = Inr (get_prop v k)"

text \<open>
  The built-ins that are not code of the repository are parameters of the model:
  \<open>JSON.parse\<close> (\<open>None\<close> when it throws), \<open>JSON.stringify\<close>, the printing of a number
  inside a template literal and the conversion of a string to a number.
\<close>

record platform =
  parse :: "string \<Rightarrow> json option"
  stringify :: "json \<Rightarrow> string"
  num_to_string :: "real \<Rightarrow> string"
  string_to_number :: "string \<Rightarrow> real option"

definition join_with :: "string \<Rightarrow> string list \<Rightarrow> string" where
  "join_with sep xs = (case xs of [] \<Rightarrow> [] | y # ys \<Rightarrow> foldl (\<lambda>acc s. acc @ sep @ s) y ys)"

text \<open>String coercion of a value inside a template literal.\<close>

fun js_to_string :: "platform \<Rightarrow> json \<Rightarrow> string" where
  "js_to_string P JNull = ''null''"
| "js_to_string P (JBool b) = (if b then ''true'' else ''false'')"
| "js_to_string P (JNum n) = num_to_string P n"
| "js_to_string P (JStr s) = s"
| "js_to_string P (JArr xs) =
     join_with '','' (map (\<lambda>x. if x = JNull then [] else js_to_string P x) xs)"
| "js_to_string P (JObj kvs) = ''[object Object]''"

text \<open>
  Numeric coercion as done by the relational operators; \<open>None\<close> is NaN. The operators
  compare the values of two doubles, which is exact.
\<close>

fun js_to_number :: "platform \<Rightarrow> json option \<Rightarrow> real option" where
  "js_to_number P None = None"
| "js_to_number P (Some JNull) = Some 0"
| "js_to_number P (Some (JBool b)) = Some (if b then 1 else 0)"
| "js_to_number P (Some (JNum n)) = Some n"
| "js_to_number P (Some (JStr s)) = string_to_number P s"
| "js_to_number P (Some (JArr xs)) = string_to_number P (js_to_string P (JArr xs))"
| "js_to_number P (Some (JObj kvs)) = None"

definition js_gt :: "platform \<Rightarrow> json option \<Rightarrow> real \<Rightarrow> bool" where
  "js_gt P v c = (case js_to_number P v of None \<Rightarrow> False | Some n \<Rightarrow> n > c)"

definition js_lt :: "platform \<Rightarrow> json option \<Rightarrow> real \<Rightarrow> bool" where
  "js_lt P v c = (case js_to_number P v of None \<Rightarrow> False | Some n \<Rightarrow> n < c)"

text \<open>
  The double that the literal \<open>0.7\<close> denotes: \<open>0.7\<close> is not a dyadic fraction, and the
  nearest double is \<open>3152519739159347 / 2^52\<close>. The literal \<open>0.75\<close> is a double itself.
\<close>

definition double_0_7 :: real where
  "double_0_7 = 3152519739159347 / 4503599627370496"

text \<open>
  \<open>toLowerCase\<close> maps \<open>A-Z\<close> and the Latin-1 capitals (code units 192 to 222 except
  the multiplication sign 215) to the letter 32 above. \<open>toUpperCase\<close> is the converse
  on \<open>a-z\<close> and the code units 224 to 254 except the division sign 247; the three
  Latin-1 letters whose capital lies outside Latin-1 (181, 223, 255) are left as they
  are, and the validators apply \<open>toUpperCase\<close> to ASCII names only.
\<close>

definition lower_char :: "char \<Rightarrow> char" where
  "lower_char c =
     (case map_of (zip ''ABCDEFGHIJKLMNOPQRSTUVWXYZ'' ''abcdefghijklmnopqrstuvwxyz'') c of
        Some d \<Rightarrow> d
      | None \<Rightarrow>
          (let n = (of_char c :: nat) in
           if 192 \<le> n \<and> n \<le> 222 \<and> n \<noteq> 215 then char_of (n + 32) else c))"

definition upper_char :: "char \<Rightarrow> char" where
  "upper_char c =
     (case map_of (zip ''abcdefghijklmnopqrstuvwxyz'' ''ABCDEFGHIJKLMNOPQRSTUVWXYZ'') c of
        Some d \<Rightarrow> d
      | None \<Rightarrow>
          (let n = (of_char c :: nat) in
           if 224 \<le> n \<and> n \<le> 254 \<and> n \<noteq> 247 then char_of (n - 32) else c))"

definition toLowerCase :: "string \<Rightarrow> string" where
  "toLowerCase s = map lower_char s"

definition toUpperCase :: "string \<Rightarrow> string" where
  "toUpperCase s = map upper_char s"

text \<open>
  \<open>String.prototype.trim\<close> strips white space and line terminators; below 256 these
  are the code units 9 to 13, 32 and 160 (the no-break space).
\<close>

definition is_space :: "char \<Rightarrow> bool" where
  "is_space c = ((of_char c :: nat) \<in> {9, 10, 11, 12, 13, 32, 160})"

definition trim :: "string \<Rightarrow> string" where
  "trim s = rev (dropWhile is_space (rev (dropWhile is_space s)))"

text \<open>
  A plain object inherits these keys from \<open>Object.prototype\<close>; a bracket lookup
  \<open>obj[k]\<close> with one of them yields a truthy value that is not an entry of the table.
\<close>

definition object_prototype_keys :: "string list" where
  "object_prototype_keys =
     [''constructor'', ''__defineGetter__'', ''__defineSetter__'', ''hasOwnProperty'',
      ''__lookupGetter__'', ''__lookupSetter__'', ''isPrototypeOf'',
      ''propertyIsEnumerable'', ''toString'', ''valueOf'', ''__proto__'',
      ''toLocaleString'']"

section \<open>Shared types (types/mcp.ts)\<close>

record FilterRule =
  rule_type :: string
  pattern :: "string option"
  action :: "string option"
  config :: "json option"

record PolicyFilters =
  requestPayload :: "FilterRule list option"
  responsePayload :: "FilterRule list option"

record Policy =
  policy_id :: string
  policy_name :: string
  active :: bool
  policy_action :: string
  filters :: PolicyFilters

record ValidationResult =
  allowed :: bool
  modified :: bool
  modifiedPayload :: "string option"
  reason :: "string option"
  metadata :: "(string \<times> json) list option"

definition allow_result :: ValidationResult where
  "allow_result = \<lparr>allowed = True, modified = False, modifiedPayload = None,
                    reason = None, metadata = None\<rparr>"

text \<open>Invariants I1 and I2 of a \<open>ValidationResult\<close>, as a computable check.\<close>

definition result_wf :: "ValidationResult \<Rightarrow> bool" where
  "result_wf r =
     ((allowed r \<or> (case reason r of None \<Rightarrow> False | Some s \<Rightarrow> s \<noteq> []))
      \<and> (\<not> modified r \<or> (modifiedPayload r \<noteq> None \<and> allowed r)))"


section \<open>Regular expressions\<close>

text \<open>
  A \<open>RegExp\<close> object is its source and flags; the matching engine is a parameter.
  \<open>re_exec E r text i\<close> is the leftmost match of \<open>r\<close> in \<open>text\<close> that starts at or
  after index \<open>i\<close>, as the pair of its start and end index; \<open>re_valid E src\<close> tells
  whether \<open>new RegExp(src, "i")\<close> compiles.
\<close>

record regexp =
  source :: string
  flags :: string

record regex_engine =
  re_valid :: "string \<Rightarrow> bool"
  re_exec :: "regexp \<Rightarrow> string \<Rightarrow> nat \<Rightarrow> (nat \<times> nat) option"

text \<open>
  \<open>RegExp.prototype.test\<close> on a regex with the \<open>g\<close> flag starts at \<open>lastIndex\<close>, and
  leaves \<open>lastIndex\<close> at the end of the match, or at 0 when nothing matches. The result
  is the answer and the new \<open>lastIndex\<close>.
\<close>

definition test_global :: "regex_engine \<Rightarrow> regexp \<Rightarrow> string \<Rightarrow> nat \<Rightarrow> bool \<times> nat" where
  "test_global E r text lastIndex =
     (if lastIndex > length text then (False, 0)
      else case re_exec E r text lastIndex of
             None \<Rightarrow> (False, 0)
           | Some (s, e) \<Rightarrow> (True, e))"

text \<open>Without the \<open>g\<close> flag, \<open>test\<close> and \<open>replace\<close> search from index 0 and keep no state.\<close>

definition test_plain :: "regex_engine \<Rightarrow> regexp \<Rightarrow> string \<Rightarrow> bool" where
  "test_plain E r text = (re_exec E r text 0 \<noteq> None)"

definition replace_first :: "regex_engine \<Rightarrow> regexp \<Rightarrow> string \<Rightarrow> string \<Rightarrow> string" where
  "replace_first E r text rep =
     (case re_exec E r text 0 of
        None \<Rightarrow> text
      | Some (s, e) \<Rightarrow> take s text @ rep @ drop e text)"

text \<open>
  \<open>String.prototype.replace\<close> with a \<open>g\<close> regex resets \<open>lastIndex\<close> to 0, collects the
  successive matches (stepping over an empty match by one index) and splices the
  replacement in. The \<open>max\<close> only guards against an engine that reports a match before
  the index it was asked to start from; for a real engine it changes nothing.
\<close>

function all_matches :: "regex_engine \<Rightarrow> regexp \<Rightarrow> string \<Rightarrow> nat \<Rightarrow> (nat \<times> nat) list" where
  "all_matches E r text pos =
     (if pos > length text then []
      else case re_exec E r text pos of
             None \<Rightarrow> []
           | Some (s, e) \<Rightarrow>
               (s, e) # all_matches E r text (max (Suc pos) (if e = s then Suc e else e)))"
  by pat_completeness auto
termination
  by (relation "measure (\<lambda>(E, r, text, pos). Suc (length text) - pos)") auto

fun splice :: "string \<Rightarrow> string \<Rightarrow> nat \<Rightarrow> (nat \<times> nat) list \<Rightarrow> string" where
  "splice text rep nsp [] = drop nsp text"
| "splice text rep nsp ((s, e) # ms) =
     (if nsp \<le> s then take (s - nsp) (drop nsp text) @ rep @ splice text rep e ms
      else splice text rep nsp ms)"

definition replace_global :: "regex_engine \<Rightarrow> regexp \<Rightarrow> string \<Rightarrow> string \<Rightarrow> string" where
  "replace_global E r text rep = splice text rep 0 (all_matches E r text 0)"

section \<open>PII validator (pii-validator.ts)\<close>

definition bsl :: char where
  "bsl = CHR 0x5C"

text \<open>The module-level table \<open>PII_PATTERNS\<close>: eight regex literals, all with the \<open>g\<close> flag.\<close>

definition PII_PATTERNS :: "(string \<times> regexp) list" where
  "PII_PATTERNS =
    [(''email'', \<lparr>source = bsl # ''b[A-Za-z0-9._%+-]+@[A-Za-z0-9.-]+'' @ bsl # ''.[A-Z|a-z]{2,}''
                   @ bsl # ''b'', flags = ''g''\<rparr>),
     (''phone'', \<lparr>source = bsl # ''b('' @ bsl # ''+?'' @ bsl # ''d{1,3}[-.'' @ bsl # ''s]?)?(''
                   @ bsl # ''(?'' @ bsl # ''d{3}'' @ bsl # '')?[-.'' @ bsl # ''s]?)?'' @ bsl # ''d{3}[-.''
                   @ bsl # ''s]?'' @ bsl # ''d{4}'' @ bsl # ''b'', flags = ''g''\<rparr>),
     (''ssn'', \<lparr>source = bsl # ''b'' @ bsl # ''d{3}-'' @ bsl # ''d{2}-'' @ bsl # ''d{4}'' @ bsl # ''b'',
                 flags = ''g''\<rparr>),
     (''credit_card'', \<lparr>source = bsl # ''b'' @ bsl # ''d{4}[-'' @ bsl # ''s]?'' @ bsl # ''d{4}[-''
                   @ bsl # ''s]?'' @ bsl # ''d{4}[-'' @ bsl # ''s]?'' @ bsl # ''d{4}'' @ bsl # ''b'',
                 flags = ''g''\<rparr>),
     (''ip_address'', \<lparr>source = bsl # ''b(?:'' @ bsl # ''d{1,3}'' @ bsl # ''.){3}'' @ bsl # ''d{1,3}''
                   @ bsl # ''b'', flags = ''g''\<rparr>),
     (''password'', \<lparr>source = bsl # ''b(password|passwd|pwd)['' @ bsl # ''s:=]+[^'' @ bsl # ''s]+'',
                 flags = ''gi''\<rparr>),
     (''api_key'', \<lparr>source = bsl # ''b(api[_-]?key|apikey|access[_-]?token)['' @ bsl # ''s:=]+[^''
                   @ bsl # ''s]+'', flags = ''gi''\<rparr>),
     (''url'', \<lparr>source = bsl # ''bhttps?:'' @ bsl # ''/'' @ bsl # ''/[^'' @ bsl # ''s]+'',
                 flags = ''gi''\<rparr>)]"

text \<open>
  \<open>getPIIRegex\<close>: \<open>PII_PATTERNS[piiType.toLowerCase()] || null\<close>. The table is a plain
  object, so a key inherited from \<open>Object.prototype\<close> yields a value that is not a
  \<open>RegExp\<close>.
\<close>

datatype pii_lookup = PiiRegex regexp | NotARegex | NoPattern

definition getPIIRegex :: "string \<Rightarrow> pii_lookup" where
  "getPIIRegex piiType =
     (let piiTypeKey = toLowerCase piiType in
      case map_of PII_PATTERNS piiTypeKey of
        Some r \<Rightarrow> PiiRegex r
      | None \<Rightarrow> if piiTypeKey \<in> set object_prototype_keys then NotARegex else NoPattern)"

text \<open>
  The regex objects are shared by all calls, so their \<open>lastIndex\<close> fields are the state
  of the validator: one index per key of the table, all 0 when the module is loaded.
\<close>

type_synonym pii_state = "string \<Rightarrow> nat"

definition pii_initial :: pii_state where
  "pii_initial = (\<lambda>k. 0)"

definition pii_validate ::
  "regex_engine \<Rightarrow> pii_state \<Rightarrow> string \<Rightarrow> FilterRule \<Rightarrow> Policy
     \<Rightarrow> (error + ValidationResult) \<times> pii_state" where
  "pii_validate E st text rule policy =
     (case pattern rule of
        None \<Rightarrow> (Inr allow_result, st)
      | Some piiType \<Rightarrow>
          if piiType = [] then (Inr allow_result, st)
          else (case getPIIRegex piiType of
                  NoPattern \<Rightarrow> (Inr allow_result, st)
                | NotARegex \<Rightarrow> (Inl TypeError, st)
                | PiiRegex piiRegex \<Rightarrow>
                    (let key = toLowerCase piiType;
                         (match, li) = test_global E piiRegex text (st key);
                         st1 = st(key := li)
                     in if match then
                          (let act = (case action rule of
                                        None \<Rightarrow> ''block''
                                      | Some a \<Rightarrow> if a = [] then ''block'' else a)
                           in if act = ''block'' then
                                (Inr \<lparr>allowed = False, modified = False, modifiedPayload = None,
                                      reason = Some (''Blocked due to PII detection: '' @ piiType),
                                      metadata = Some [(''policy_id'', JStr (policy_id policy)),
                                                       (''rule_type'', JStr ''pii''),
                                                       (''pii_type'', JStr piiType)]\<rparr>, st1)
                              else if act = ''redact'' then
                                (Inr \<lparr>allowed = True, modified = True,
                                      modifiedPayload = Some (replace_global E piiRegex text
                                         (''['' @ toUpperCase piiType @ ''_REDACTED]'')),
                                      reason = None, metadata = None\<rparr>, st1(key := 0))
                              else (Inr allow_result, st1))
                        else (Inr allow_result, st1))))"

section \<open>Regex validator (regex-validator.ts)\<close>

text \<open>
  The regex is compiled afresh on every call with the flag \<open>i\<close> only; an invalid pattern
  is caught and allowed.
\<close>

definition regex_validate ::
  "regex_engine \<Rightarrow> string \<Rightarrow> FilterRule \<Rightarrow> Policy \<Rightarrow> ValidationResult" where
  "regex_validate E text rule policy =
     (case pattern rule of
        None \<Rightarrow> allow_result
      | Some pat \<Rightarrow>
          if pat = [] then allow_result
          else if \<not> re_valid E pat then allow_result
          else (let regex = \<lparr>source = pat, flags = ''i''\<rparr>;
                    match = test_plain E regex text
                in if match then
                     (let act = (case action rule of
                                   None \<Rightarrow> ''block''
                                 | Some a \<Rightarrow> if a = [] then ''block'' else a)
                      in if act = ''block'' then
                           \<lparr>allowed = False, modified = False, modifiedPayload = None,
                            reason = Some (''Blocked by regex pattern: '' @ pat),
                            metadata = Some [(''policy_id'', JStr (policy_id policy)),
                                             (''rule_type'', JStr ''regex''),
                                             (''pattern'', JStr pat)]\<rparr>
                         else if act = ''redact'' then
                           \<lparr>allowed = True, modified = True,
                            modifiedPayload = Some (replace_first E regex text ''[REDACTED]''),
                            reason = None, metadata = None\<rparr>
                         else allow_result)
                   else allow_result))"

section \<open>Validation context\<close>

record ApprovalConditions =
  expiresAt :: "int option"
  allowedIps :: "string list option"
  allowedIpRanges :: "string list option"
  whitelistedEndpoints :: "string list option"

record AuditPolicy =
  resourceName :: string
  remarks :: "string option"
  markedBy :: "string option"
  approvalConditions :: "ApprovalConditions option"

record ValidationContext =
  ip :: "string option"
  endpoint :: "string option"
  http_method :: "string option"
  requestHeaders :: "(string \<times> string) list option"
  responseHeaders :: "(string \<times> string) list option"
  statusCode :: "int option"
  ctx_requestPayload :: "string option"
  ctx_responsePayload :: "string option"
  mcpServerName :: "string option"
  policies :: "Policy list option"
  auditPolicies :: "(string \<rightharpoonup> AuditPolicy) option"
  hasAuditRules :: "bool option"

text \<open>\<open>s || d\<close> for an optional string: the default replaces an absent or empty one.\<close>

definition str_or :: "string option \<Rightarrow> string \<Rightarrow> string" where
  "str_or s d = (case s of None \<Rightarrow> d | Some x \<Rightarrow> if x = [] then d else x)"

section \<open>Rate-limit validator (rate-limit-validator.ts)\<close>

text \<open>
  Counts, limits and times are integers (milliseconds for times). The KV namespace is a
  map from keys to the stored cell together with the \<open>expirationTtl\<close> of the write; the
  expiry done by the store itself is not modelled, the validator's own test of
  \<open>resetAt\<close> is.
\<close>

datatype RateLimitIdentifierType = IP | USER | TOOL

record RateLimitConfig =
  enabled :: bool
  limit :: int
  windowSeconds :: int
  identifierTypes :: "RateLimitIdentifierType list"

record RateLimitCell =
  cell_count :: int
  cell_resetAt :: int

record kv_entry =
  cell :: RateLimitCell
  expirationTtl :: int

type_synonym kv_store = "string \<rightharpoonup> kv_entry"

record RateLimitCheck =
  rl_allowed :: bool
  currentCount :: int
  resetAt :: int

definition RATE_LIMIT_POLICY_CATEGORY :: string where
  "RATE_LIMIT_POLICY_CATEGORY = ''RateLimitPolicy''"

text \<open>\<open>Math.ceil(a / b)\<close> for integers \<open>a\<close> and positive \<open>b\<close>.\<close>

definition ceil_div :: "int \<Rightarrow> int \<Rightarrow> int" where
  "ceil_div a b = - ((- a) div b)"

definition extractToolName :: "json \<Rightarrow> error + json option" where
  "extractToolName requestData =
     (case prop_of requestData ''method'' of
        Inl e \<Rightarrow> Inl e
      | Inr m \<Rightarrow>
          if m \<noteq> Some (JStr ''tools/call'') then Inr None
          else (let name = (case get_prop requestData ''params'' of
                              None \<Rightarrow> None
                            | Some JNull \<Rightarrow> None
                            | Some params \<Rightarrow> get_prop params ''name'')
                in Inr (if truthy name then name else None)))"

definition getRateLimitKey :: "string \<Rightarrow> string" where
  "getRateLimitKey identifier = ''ratelimit:'' @ identifier"

definition checkRateLimit ::
  "kv_store \<Rightarrow> int \<Rightarrow> string \<Rightarrow> int \<Rightarrow> int \<Rightarrow> RateLimitCheck \<times> kv_store" where
  "checkRateLimit kv now key lmt window =
     (let data = map_option cell (kv key) in
      if data = None \<or> now > cell_resetAt (the data) then
        (let reset = now + window * 1000 in
         (\<lparr>rl_allowed = True, currentCount = 1, resetAt = reset\<rparr>,
          kv(key \<mapsto> \<lparr>cell = \<lparr>cell_count = 1, cell_resetAt = reset\<rparr>,
                      expirationTtl = window\<rparr>)))
      else if cell_count (the data) \<ge> lmt then
        (\<lparr>rl_allowed = False, currentCount = cell_count (the data),
          resetAt = cell_resetAt (the data)\<rparr>, kv)
      else
        (let newCount = cell_count (the data) + 1 in
         (\<lparr>rl_allowed = True, currentCount = newCount, resetAt = cell_resetAt (the data)\<rparr>,
          kv(key \<mapsto> \<lparr>cell = \<lparr>cell_count = newCount, cell_resetAt = cell_resetAt (the data)\<rparr>,
                      expirationTtl = ceil_div (cell_resetAt (the data) - now) 1000\<rparr>))))"

definition identifier_part ::
  "ValidationContext \<Rightarrow> string \<Rightarrow> RateLimitIdentifierType \<Rightarrow> string" where
  "identifier_part valCtx toolName idType =
     (case idType of
        IP \<Rightarrow> str_or (ip valCtx) ''unknown''
      | USER \<Rightarrow>
          str_or (case requestHeaders valCtx of
                    None \<Rightarrow> None
                  | Some hs \<Rightarrow> map_of hs ''x-user-id'')
                 (str_or (ip valCtx) ''unknown'')
      | TOOL \<Rightarrow> toolName)"

text \<open>
  \<open>validateRequest\<close> of the rate limiter. \<open>now\<close> is the clock reading inside
  \<open>checkRateLimit\<close>, \<open>now2\<close> the later reading used for \<open>reset_in_seconds\<close>.
\<close>

definition rl_validateRequest ::
  "platform \<Rightarrow> kv_store \<Rightarrow> int \<Rightarrow> int \<Rightarrow> string \<Rightarrow> ValidationContext
     \<Rightarrow> RateLimitConfig option \<Rightarrow> (error + ValidationResult option) \<times> kv_store" where
  "rl_validateRequest P kv now now2 payload valCtx rateLimitConfig =
     (case rateLimitConfig of
        None \<Rightarrow> (Inr None, kv)
      | Some cfg \<Rightarrow>
          if \<not> enabled cfg then (Inr None, kv)
          else (case parse P payload of
                  None \<Rightarrow> (Inr None, kv)
                | Some requestData \<Rightarrow>
                    (case extractToolName requestData of
                       Inl e \<Rightarrow> (Inl e, kv)
                     | Inr None \<Rightarrow> (Inr None, kv)
                     | Inr (Some tool) \<Rightarrow>
                         (let toolName = js_to_string P tool;
                              identifier = join_with '':''
                                 (map (identifier_part valCtx toolName) (identifierTypes cfg));
                              key = getRateLimitKey identifier;
                              (result, kv') = checkRateLimit kv now key (limit cfg) (windowSeconds cfg)
                          in if \<not> rl_allowed result then
                               (let resetInSeconds = ceil_div (resetAt result - now2) 1000 in
                                (Inr (Some \<lparr>allowed = False, modified = False,
                                   modifiedPayload = None,
                                   reason = Some (''Rate limit exceeded for tool '' @ [CHR 0x27]
                                      @ toolName @ [CHR 0x27] @ ''. Try again in ''
                                      @ num_to_string P (of_int resetInSeconds) @ '' seconds.''),
                                   metadata = Some
                                     [(''policy_id'', JStr RATE_LIMIT_POLICY_CATEGORY),
                                      (''tool_name'', tool),
                                      (''current_count'', JNum (of_int (currentCount result))),
                                      (''limit'', JNum (of_int (limit cfg))),
                                      (''reset_at'', JNum (of_int (resetAt result))),
                                      (''reset_in_seconds'', JNum (of_int resetInSeconds))]\<rparr>), kv'))
                             else
                               (Inr (Some \<lparr>allowed = True, modified = False,
                                  modifiedPayload = None, reason = None,
                                  metadata = Some
                                    [(''rate_limit_current'', JNum (of_int (currentCount result))),
                                     (''rate_limit_max'', JNum (of_int (limit cfg)))]\<rparr>), kv')))))"

section \<open>Audit validator (audit-validator.ts)\<close>

definition AUDIT_POLICY_CATEGORY :: string where
  "AUDIT_POLICY_CATEGORY = ''AuditPolicy''"

definition audit_block :: "string \<Rightarrow> ValidationResult" where
  "audit_block why = \<lparr>allowed = False, modified = False, modifiedPayload = None,
                       reason = Some why,
                       metadata = Some [(''policy_id'', JStr AUDIT_POLICY_CATEGORY)]\<rparr>"

text \<open>\<open>String.prototype.split\<close> with a one-character separator.\<close>

fun split_on :: "char \<Rightarrow> string \<Rightarrow> string list" where
  "split_on c [] = [[]]"
| "split_on c (x # xs) =
     (if x = c then [] # split_on c xs
      else (case split_on c xs of
              [] \<Rightarrow> [[x]]
            | p # ps \<Rightarrow> (x # p) # ps))"

text \<open>
  \<open>parseInt\<close> without a radix: leading white space, an optional sign, an optional
  \<open>0x\<close> prefix, then the longest run of digits; \<open>None\<close> is NaN. The value is exact
  (a double is, below \<open>2^53\<close>).
\<close>

definition digit_val :: "char \<Rightarrow> nat" where
  "digit_val c = (let n = (of_char c :: nat) in
     if 48 \<le> n \<and> n \<le> 57 then n - 48
     else if 97 \<le> n \<and> n \<le> 122 then n - 87
     else if 65 \<le> n \<and> n \<le> 90 then n - 55
     else 36)"

definition parseInt :: "string \<Rightarrow> int option" where
  "parseInt str =
     (let s1 = dropWhile is_space str;
          (neg, s2) = (case s1 of
                         c # r \<Rightarrow> if c = CHR ''-'' then (True, r)
                                  else if c = CHR ''+'' then (False, r) else (False, s1)
                       | [] \<Rightarrow> (False, s1));
          (radix, s3) = (case s2 of
                           a # b # r \<Rightarrow> if a = CHR ''0'' \<and> (b = CHR ''x'' \<or> b = CHR ''X'')
                                        then (16, r) else (10, s2)
                         | _ \<Rightarrow> (10, s2));
          ds = takeWhile (\<lambda>c. digit_val c < radix) s3
      in if ds = [] then None
         else Some ((if neg then - 1 else 1)
                    * int (foldl (\<lambda>a c. a * radix + digit_val c) 0 ds)))"

text \<open>
  \<open>ipToNumber\<close>: \<open>ip.split(".").reduce((acc, octet) => (acc << 8) + parseInt(octet), 0) >>> 0\<close>.
  The accumulator is a number (\<open>None\<close> is NaN); \<open><<\<close> works on its 32-bit signed
  reading and \<open>>>> 0\<close> gives the unsigned 32-bit value.
\<close>

definition shl8 :: "int option \<Rightarrow> int" where
  "shl8 acc = (case acc of
       None \<Rightarrow> 0
     | Some a \<Rightarrow> sint (push_bit 8 (word_of_int a :: 32 word)))"

definition ip_step :: "int option \<Rightarrow> string \<Rightarrow> int option" where
  "ip_step acc octet = (case parseInt octet of
       None \<Rightarrow> None
     | Some v \<Rightarrow> Some (shl8 acc + v))"

definition ipToNumber :: "string \<Rightarrow> 32 word" where
  "ipToNumber addr = (case foldl ip_step (Some 0) (split_on CHR ''.'' addr) of
       None \<Rightarrow> 0
     | Some a \<Rightarrow> word_of_int a)"

text \<open>
  The 32-bit pattern of \<open>~(2 ** (32 - parseInt(bits)) - 1)\<close>. The operand of \<open>~\<close> is a
  double and \<open>~\<close> reads it truncated and modulo \<open>2^32\<close>: it is NaN (read as 0) when
  \<open>bits\<close> has no digits; for an exponent below \<open>-53\<close> the difference rounds to \<open>-1\<close>;
  for another negative exponent it is a fraction in \<open>(-1, 0)\<close>, read as 0; up to
  exponent 53 it is the exact integer; beyond, it rounds to a multiple of \<open>2^32\<close> (or
  is infinite), read as 0.
\<close>

definition cidr_mask :: "int option \<Rightarrow> 32 word" where
  "cidr_mask b = (case b of
       None \<Rightarrow> NOT 0
     | Some n \<Rightarrow>
         (let k = 32 - n in
          if k < - 53 then NOT (- 1)
          else if k < 0 then NOT 0
          else if k \<le> 53 then NOT (word_of_int (2 ^ nat k - 1))
          else NOT 0))"

definition isIPInCIDR :: "string \<Rightarrow> string \<Rightarrow> bool" where
  "isIPInCIDR addr cidr =
     (case split_on CHR ''/'' cidr of
        rng # bits # rest \<Rightarrow>
          if bits = [] then False
          else (let mask = cidr_mask (parseInt bits);
                    ipNum = ipToNumber addr;
                    rangeNum = ipToNumber rng
                in (ipNum AND mask) = (rangeNum AND mask))
      | _ \<Rightarrow> False)"

definition isIPAllowed :: "string \<Rightarrow> string list \<Rightarrow> string list \<Rightarrow> bool" where
  "isIPAllowed clientIP allowedIPs allowedIPRanges =
     (if \<exists>allowedIP \<in> set allowedIPs. clientIP = allowedIP then True
      else if \<exists>ipRange \<in> set allowedIPRanges. isIPInCIDR clientIP ipRange then True
      else False)"

definition list_or_empty :: "'a list option \<Rightarrow> 'a list" where
  "list_or_empty xs = (case xs of None \<Rightarrow> [] | Some l \<Rightarrow> l)"

definition validateConditionalApproval ::
  "int \<Rightarrow> AuditPolicy \<Rightarrow> ValidationContext \<Rightarrow> ValidationResult" where
  "validateConditionalApproval now policy valCtx =
     (case approvalConditions policy of
        None \<Rightarrow> audit_block ''No approval conditions defined''
      | Some conditions \<Rightarrow>
          if (case expiresAt conditions of
                None \<Rightarrow> False
              | Some e \<Rightarrow> e \<noteq> 0 \<and> e > 0 \<and> now div 1000 > e)
          then audit_block ''Conditional approval has expired''
          else if (case ip valCtx of
                     None \<Rightarrow> False
                   | Some clientIP \<Rightarrow>
                       clientIP \<noteq> []
                       \<and> (list_or_empty (allowedIps conditions) \<noteq> []
                            \<or> list_or_empty (allowedIpRanges conditions) \<noteq> [])
                       \<and> \<not> isIPAllowed clientIP (list_or_empty (allowedIps conditions))
                                              (list_or_empty (allowedIpRanges conditions)))
          then audit_block ''Client IP is not in the allowed list''
          else allow_result)"

definition validateWithPolicy ::
  "int \<Rightarrow> AuditPolicy \<Rightarrow> ValidationContext \<Rightarrow> ValidationResult" where
  "validateWithPolicy now policy valCtx =
     (let remarks = (case remarks policy of None \<Rightarrow> [] | Some r \<Rightarrow> trim r);
          remarksLower = toLowerCase remarks
      in if remarksLower = ''approved'' then allow_result
         else if remarksLower = ''rejected'' then
           audit_block ''Resource access has been rejected by Audit Policy''
         else if remarksLower = ''conditionally approved'' then
           validateConditionalApproval now policy valCtx
         else allow_result)"

definition extractResourceName :: "json \<Rightarrow> error + json option" where
  "extractResourceName requestData =
     (case prop_of requestData ''method'' of
        Inl e \<Rightarrow> Inl e
      | Inr m \<Rightarrow>
          if \<not> truthy m then Inr None
          else (case get_prop requestData ''params'' of
                  None \<Rightarrow> Inr None
                | Some params \<Rightarrow>
                    if \<not> truthy (Some params) then Inr None
                    else if m = Some (JStr ''tools/call'') \<or> m = Some (JStr ''prompts/get'') then
                      Inr (if truthy (get_prop params ''name'') then get_prop params ''name''
                           else None)
                    else if m = Some (JStr ''resources/read'') then
                      Inr (if truthy (get_prop params ''uri'') then get_prop params ''uri''
                           else None)
                    else Inr None))"

text \<open>
  A bracket lookup in the audit map, a plain object: an own entry, or for a key
  inherited from \<open>Object.prototype\<close> a truthy value without \<open>remarks\<close> or conditions.
\<close>

definition inherited_value :: AuditPolicy where
  "inherited_value = \<lparr>resourceName = [], remarks = None, markedBy = None,
                        approvalConditions = None\<rparr>"

definition audit_lookup :: "(string \<rightharpoonup> AuditPolicy) option \<Rightarrow> string \<Rightarrow> AuditPolicy option" where
  "audit_lookup m k =
     (case m of
        None \<Rightarrow> None
      | Some tab \<Rightarrow>
          (case tab k of
             Some p \<Rightarrow> Some p
           | None \<Rightarrow> if k \<in> set object_prototype_keys then Some inherited_value else None))"

text \<open>The server-level check: the block it produces, if any.\<close>

definition server_level_block :: "int \<Rightarrow> ValidationContext \<Rightarrow> ValidationResult option" where
  "server_level_block now valCtx =
     (case mcpServerName valCtx of
        None \<Rightarrow> None
      | Some srv \<Rightarrow>
          if srv = [] then None
          else (case audit_lookup (auditPolicies valCtx) (toLowerCase srv) of
                  None \<Rightarrow> None
                | Some serverPolicy \<Rightarrow>
                    (let result = validateWithPolicy now serverPolicy valCtx
                     in if \<not> allowed result then Some result else None)))"

definition audit_validateRequest ::
  "platform \<Rightarrow> int \<Rightarrow> string \<Rightarrow> ValidationContext \<Rightarrow> error + ValidationResult option" where
  "audit_validateRequest P now payload valCtx =
     (case parse P payload of
        None \<Rightarrow> Inr None
      | Some requestData \<Rightarrow>
          (case extractResourceName requestData of
             Inl e \<Rightarrow> Inl e
           | Inr None \<Rightarrow> Inr None
           | Inr (Some resource) \<Rightarrow>
               (case server_level_block now valCtx of
                  Some result \<Rightarrow> Inr (Some result)
                | None \<Rightarrow>
                    (case audit_lookup (auditPolicies valCtx) (js_to_string P resource) of
                       None \<Rightarrow> Inr None
                     | Some policy \<Rightarrow> Inr (Some (validateWithPolicy now policy valCtx))))))"

section \<open>Scanner client (scanner-client.ts)\<close>

record ScannerInfo =
  scanner_type :: string
  scanner_name :: string
  scanner_config :: json

record ScannerTask = ScannerInfo +
  policyId :: string
  policyName :: string

record ScanResult =
  res_scanner_name :: string
  is_valid :: bool
  risk_score :: real
  details :: "json option"

text \<open>
  \<open>total_time_ms\<close>, a difference of two clock readings that no decision reads, is left
  out of the response.
\<close>

record ScanResponse =
  results :: "ScanResult list"
  success_count :: nat
  failure_count :: nat

record SingleScanRequest =
  req_text :: string
  req_scanner_type :: string
  req_scanner_name :: string
  req_config :: json

definition MAX_REQUEST_BODY_SIZE :: nat where
  "MAX_REQUEST_BODY_SIZE = 1 * 1024 * 1024"

definition getScannersForFilterType :: "string \<Rightarrow> string list" where
  "getScannersForFilterType filterType =
     (if filterType = ''harmfulCategories'' then [''Toxicity'']
      else if filterType = ''promptAttacks'' then [''PromptInjection'']
      else if filterType = ''banSubstrings'' then [''BanSubstrings'']
      else if filterType = ''banTopics'' then [''BanTopics'']
      else [])"

definition isScannerFilterType :: "string \<Rightarrow> bool" where
  "isScannerFilterType filterType =
     (filterType \<in> set [''harmfulCategories'', ''promptAttacks'', ''deniedTopics''])"

text \<open>
  The remote scanner is a parameter: \<open>fetch req\<close> is the parsed body of a successful
  POST to the model executor, or \<open>None\<close> when the call fails (network error, abort by
  the 5-second deadline, a status that is not 2xx, a body that is not JSON).
  \<open>callSingleScanAPI\<close> returns its outcome and the POSTs it issued.
\<close>

definition callSingleScanAPI ::
  "(SingleScanRequest \<Rightarrow> ScanResult option) \<Rightarrow> string \<Rightarrow> 'a ScannerInfo_scheme
     \<Rightarrow> (error + ScanResult) \<times> SingleScanRequest list" where
  "callSingleScanAPI fetch text scanner =
     (if length text > MAX_REQUEST_BODY_SIZE then (Inl PayloadTooLarge, [])
      else (let reqBody = \<lparr>req_text = text, req_scanner_type = scanner_type scanner,
                            req_scanner_name = scanner_name scanner,
                            req_config = scanner_config scanner\<rparr>
            in (case fetch reqBody of
                  None \<Rightarrow> (Inl ScanApiFailure, [reqBody])
                | Some scanResp \<Rightarrow> (Inr scanResp, [reqBody]))))"

text \<open>The loop over the settled promises.\<close>

fun tally :: "(error + ScanResult) list \<Rightarrow> ScanResponse \<Rightarrow> ScanResponse" where
  "tally [] acc = acc"
| "tally (Inr v # rest) acc =
     tally rest (if is_valid v
                 then acc\<lparr>results := results acc @ [v], success_count := success_count acc + 1\<rparr>
                 else acc\<lparr>results := results acc @ [v], failure_count := failure_count acc + 1\<rparr>)"
| "tally (Inl e # rest) acc = tally rest (acc\<lparr>failure_count := failure_count acc + 1\<rparr>)"

definition scan ::
  "(SingleScanRequest \<Rightarrow> ScanResult option) \<Rightarrow> string \<Rightarrow> 'a ScannerInfo_scheme list
     \<Rightarrow> ScanResponse \<times> SingleScanRequest list" where
  "scan fetch text scanners =
     (if scanners = [] then (\<lparr>results = [], success_count = 0, failure_count = 0\<rparr>, [])
      else (let settled = map (callSingleScanAPI fetch text) scanners
            in (tally (map fst settled) \<lparr>results = [], success_count = 0, failure_count = 0\<rparr>,
                concat (map snd settled))))"

section \<open>Policy validator (policy-validator.ts)\<close>

definition SAFE_MCP_METHODS :: "string list" where
  "SAFE_MCP_METHODS =
     [''initialize'', ''initialized'', ''ping'', ''$/cancelRequest'', ''$/progress'',
      ''notifications/initialized'', ''notifications/cancelled'', ''notifications/progress'']"

definition isSafeMCPMethod :: "json option \<Rightarrow> bool" where
  "isSafeMCPMethod m = (case m of Some (JStr s) \<Rightarrow> s \<in> set SAFE_MCP_METHODS | _ \<Rightarrow> False)"

definition nl :: string where
  "nl = [CHR 0x0A]"

text \<open>The loop \<open>for (const msg of messages)\<close> over the elements of an array.\<close>

fun message_fields :: "json list \<Rightarrow> error + json list" where
  "message_fields [] = Inr []"
| "message_fields (msg # rest) =
     (case prop_of msg ''content'' of
        Inl e \<Rightarrow> Inl e
      | Inr c \<Rightarrow>
          (case message_fields rest of
             Inl e \<Rightarrow> Inl e
           | Inr fs \<Rightarrow> Inr (if truthy c then JObj [(''_message_content'', the c)] # fs else fs)))"

text \<open>
  What the loop yields for any value of \<open>params.messages\<close>: nothing when it is falsy, the
  characters of a string (none has \<open>content\<close>), the elements of an array; any other value
  is not iterable.
\<close>

definition fields_of_messages :: "json option \<Rightarrow> error + json list" where
  "fields_of_messages messages =
     (if \<not> truthy messages then Inr []
      else (case messages of
              Some (JArr xs) \<Rightarrow> message_fields xs
            | Some (JStr s) \<Rightarrow> Inr []
            | _ \<Rightarrow> Inl TypeError))"

definition extractFromParams :: "platform \<Rightarrow> json option \<Rightarrow> json \<Rightarrow> string \<Rightarrow> error + string" where
  "extractFromParams P m params fullPayload =
     (if m = Some (JStr ''tools/call'') then
        (let toolName = get_prop params ''name''; args = get_prop params ''arguments''
         in if truthy toolName \<and> truthy args then
              Inr (''Tool: '' @ js_to_string P (the toolName) @ nl @ ''Arguments:'' @ nl
                   @ stringify P (the args) @ nl @ ''Context:'' @ nl @ ''origin: mcp_call'')
            else if truthy toolName then
              Inr (''Tool: '' @ js_to_string P (the toolName) @ nl @ ''Arguments:'' @ nl
                   @ ''{}'' @ nl @ ''Context:'' @ nl @ ''origin: mcp_call'')
            else Inr fullPayload)
      else if m = Some (JStr ''sampling/createMessage'') \<or> m = Some (JStr ''prompts/get'') then
        (case fields_of_messages (get_prop params ''messages'') of
           Inl e \<Rightarrow> Inl e
         | Inr fs \<Rightarrow>
             (let userFields = fs @ (if truthy (get_prop params ''prompt'')
                                     then [JObj [(''_prompt'', the (get_prop params ''prompt''))]]
                                     else [])
              in Inr (if userFields \<noteq> [] then stringify P (JArr userFields) else fullPayload)))
      else if m = Some (JStr ''resources/read'') then
        Inr (if truthy (get_prop params ''uri'')
             then stringify P (JArr [JObj [(''_resource_uri'', the (get_prop params ''uri''))]])
             else fullPayload)
      else Inr (stringify P (JArr [params])))"

text \<open>Every exception inside the \<open>try\<close> block ends in \<open>return payload\<close>.\<close>

definition extractUserControlledFields :: "platform \<Rightarrow> string \<Rightarrow> string" where
  "extractUserControlledFields P payload =
     (if payload = [] then []
      else (case parse P payload of
              None \<Rightarrow> payload
            | Some mcpRequest \<Rightarrow>
                (case prop_of mcpRequest ''method'' of
                   Inl e \<Rightarrow> payload
                 | Inr m \<Rightarrow>
                     if \<not> truthy m then payload
                     else if isSafeMCPMethod m then []
                     else (case get_prop mcpRequest ''params'' of
                             None \<Rightarrow> payload
                           | Some params \<Rightarrow>
                               if \<not> truthy (Some params) then payload
                               else (case extractFromParams P m params payload of
                                       Inl e \<Rightarrow> payload
                                     | Inr s \<Rightarrow> s)))))"

text \<open>
  What the orchestrator does besides returning: the log line that prints the extracted
  payload (the extractor has run) and the POSTs to the scanner.
\<close>

datatype effect = Extracted string | ScanCall SingleScanRequest

fun scan_calls :: "effect list \<Rightarrow> SingleScanRequest list" where
  "scan_calls [] = []"
| "scan_calls (ScanCall r # es) = r # scan_calls es"
| "scan_calls (Extracted s # es) = scan_calls es"

definition tasks_of_rule :: "string \<Rightarrow> Policy \<Rightarrow> FilterRule \<Rightarrow> ScannerTask list" where
  "tasks_of_rule stype policy rule =
     (if isScannerFilterType (rule_type rule) then
        map (\<lambda>scannerName.
               \<lparr>scanner_type = stype, scanner_name = scannerName,
                scanner_config = (if truthy (config rule) then the (config rule) else JObj []),
                policyId = policy_id policy, policyName = policy_name policy\<rparr>)
            (getScannersForFilterType (rule_type rule))
      else [])"

definition collect_tasks ::
  "string \<Rightarrow> (PolicyFilters \<Rightarrow> FilterRule list option) \<Rightarrow> Policy list \<Rightarrow> ScannerTask list" where
  "collect_tasks stype side ps =
     concat (map (\<lambda>policy.
        if \<not> active policy then []
        else concat (map (tasks_of_rule stype policy) (list_or_empty (side (filters policy)))))
        ps)"

definition scanner_block :: "ScannerTask list \<Rightarrow> ScanResult \<Rightarrow> platform \<Rightarrow> ValidationResult" where
  "scanner_block scannerTasks result P =
     (let matchedTask = find (\<lambda>task. scanner_name task = res_scanner_name result) scannerTasks
      in \<lparr>allowed = False, modified = False, modifiedPayload = None,
          reason = Some (''Blocked by scanner: '' @ res_scanner_name result
                         @ '' (risk score: '' @ num_to_string P (risk_score result) @ '')''),
          metadata = Some
            ([(''policy_id'', JStr (case matchedTask of
                                      None \<Rightarrow> ''unknown''
                                    | Some t \<Rightarrow> if policyId t = [] then ''unknown'' else policyId t)),
              (''scanner'', JStr (res_scanner_name result)),
              (''risk_score'', JNum (risk_score result))]
             @ (case details result of None \<Rightarrow> [] | Some d \<Rightarrow> [(''details'', d)]))\<rparr>)"

definition decide :: "platform \<Rightarrow> ScannerTask list \<Rightarrow> ScanResponse \<Rightarrow> ValidationResult" where
  "decide P scannerTasks scanResponse =
     (case find (\<lambda>result. \<not> is_valid result) (results scanResponse) of
        Some result \<Rightarrow> scanner_block scannerTasks result P
      | None \<Rightarrow> allow_result)"

definition validateRequest ::
  "platform \<Rightarrow> (SingleScanRequest \<Rightarrow> ScanResult option) \<Rightarrow> int \<Rightarrow> string \<Rightarrow> ValidationContext
     \<Rightarrow> (error + ValidationResult) \<times> effect list" where
  "validateRequest P fetch now payload valCtx =
     (if payload = [] then (Inr allow_result, [])
      else (case (if hasAuditRules valCtx = Some True \<and> auditPolicies valCtx \<noteq> None
                  then audit_validateRequest P now payload valCtx else Inr None) of
              Inl e \<Rightarrow> (Inl e, [])
            | Inr auditResult \<Rightarrow>
                if (case auditResult of None \<Rightarrow> False | Some r \<Rightarrow> \<not> allowed r)
                then (Inr (the auditResult), [])
                else (let ps = list_or_empty (policies valCtx);
                          extractedPayload = extractUserControlledFields P payload
                      in if extractedPayload = []
                         then (Inr allow_result, [Extracted extractedPayload])
                         else (let scannerTasks = collect_tasks ''prompt'' requestPayload ps
                               in if scannerTasks \<noteq> [] then
                                    (let (scanResponse, calls) = scan fetch extractedPayload scannerTasks
                                     in (Inr (decide P scannerTasks scanResponse),
                                         Extracted extractedPayload # map ScanCall calls))
                                  else (Inr allow_result, [Extracted extractedPayload])))))"

definition validateResponse ::
  "platform \<Rightarrow> (SingleScanRequest \<Rightarrow> ScanResult option) \<Rightarrow> string \<Rightarrow> ValidationContext
     \<Rightarrow> ValidationResult \<times> effect list" where
  "validateResponse P fetch payload valCtx =
     (if payload = [] then (allow_result, [])
      else (let ps = list_or_empty (policies valCtx);
                scannerTasks = collect_tasks ''output'' responsePayload ps
            in if scannerTasks \<noteq> [] then
                 (let (scanResponse, calls) = scan fetch payload scannerTasks
                  in (decide P scannerTasks scanResponse, map ScanCall calls))
               else (allow_result, [])))"

section \<open>Threat reporter (threat-reporter.ts)\<close>

definition THREAT_DETECTION_API_URL :: string where
  "THREAT_DETECTION_API_URL = ''https://tbs.akto.io/api/threat_detection/record_malicious_event''"

record MaliciousEvent =
  actor :: string
  filterId :: string
  detectedAt :: string
  latestApiIp :: string
  latestApiEndpoint :: string
  latestApiMethod :: string
  latestApiCollectionId :: int
  latestApiPayload :: string
  eventType :: string
  category :: string
  subCategory :: string
  severity :: string
  event_kind :: string
  event_metadata :: "(string \<times> json) list"

text \<open>One POST to the threat backend: the target, the authorization header and the event.\<close>

record ThreatReport =
  report_url :: string
  report_authorization :: string
  maliciousEvent :: MaliciousEvent

definition headers_json :: "(string \<times> string) list \<Rightarrow> json" where
  "headers_json hs = JObj (map (\<lambda>(k, v). (k, JStr v)) hs)"

definition buildAPIPayload ::
  "platform \<Rightarrow> string \<Rightarrow> string \<Rightarrow> string \<Rightarrow> string \<Rightarrow> string
     \<Rightarrow> (string \<times> string) list \<Rightarrow> (string \<times> string) list \<Rightarrow> int \<Rightarrow> string" where
  "buildAPIPayload P reqPayload respPayload m addr endp reqHeaders respHeaders status =
     stringify P (JObj
       [(''method'', JStr (str_or (Some m) ''POST'')),
        (''requestPayload'', JStr reqPayload),
        (''responsePayload'', JStr respPayload),
        (''ip'', JStr (str_or (Some addr) ''unknown'')),
        (''destIp'', JStr (str_or (Some addr) ''unknown'')),
        (''source'', JStr ''OTHER''),
        (''type'', JStr ''http''),
        (''akto_vxlan_id'', JStr []),
        (''path'', JStr (str_or (Some endp) ''/mcp/unknown'')),
        (''requestHeaders'', JStr (stringify P (headers_json reqHeaders))),
        (''responseHeaders'', JStr (stringify P (headers_json respHeaders))),
        (''time'', JNum 0),
        (''akto_account_id'', JStr []),
        (''statusCode'', JNum (of_int (if status = 0 then 200 else status))),
        (''status'', JStr ''OK'')])"

definition buildMaliciousEvent ::
  "platform \<Rightarrow> int \<Rightarrow> string \<Rightarrow> string \<Rightarrow> (string \<times> json) list \<Rightarrow> string \<Rightarrow> string
     \<Rightarrow> string \<Rightarrow> (string \<times> string) list \<Rightarrow> (string \<times> string) list \<Rightarrow> int \<Rightarrow> MaliciousEvent" where
  "buildMaliciousEvent P clock reqPayload respPayload md act endp m reqHeaders respHeaders status =
     (let now = clock div 1000;
          policyID = (if truthy (map_of md ''policy_id'')
                      then js_to_string P (the (map_of md ''policy_id'')) else ''Blocked'');
          apiPayload = buildAPIPayload P reqPayload respPayload m act endp
                         reqHeaders respHeaders status
      in \<lparr>actor = act, filterId = policyID, detectedAt = num_to_string P (of_int now),
          latestApiIp = act, latestApiEndpoint = endp,
          latestApiMethod = str_or (Some m) ''POST'',
          latestApiCollectionId = now, latestApiPayload = apiPayload,
          eventType = ''EVENT_TYPE_SINGLE'', category = policyID, subCategory = policyID,
          severity = ''CRITICAL'', event_kind = ''Rule-Based'',
          event_metadata = [(''countryCode'', JStr ''IN'')]\<rparr>)"

text \<open>
  \<open>reportThreat\<close> always issues its POST; what the backend answers only changes the
  log. The result is the list of POSTs issued.
\<close>

definition reportThreat ::
  "platform \<Rightarrow> int \<Rightarrow> ValidationResult \<Rightarrow> ValidationContext \<Rightarrow> string \<Rightarrow> ThreatReport list" where
  "reportThreat P clock validationResult valCtx tbsToken =
     [\<lparr>report_url = THREAT_DETECTION_API_URL,
       report_authorization = ''Bearer '' @ tbsToken,
       maliciousEvent = buildMaliciousEvent P clock
          (str_or (ctx_requestPayload valCtx) [])
          (str_or (ctx_responsePayload valCtx) [])
          (case metadata validationResult of None \<Rightarrow> [] | Some md \<Rightarrow> md)
          (str_or (ip valCtx) ''0.0.0.0'')
          (str_or (endpoint valCtx) ''/'')
          (str_or (http_method valCtx) ''POST'')
          (list_or_empty (requestHeaders valCtx))
          (list_or_empty (responseHeaders valCtx))
          (case statusCode valCtx of None \<Rightarrow> 0 | Some c \<Rightarrow> c)\<rparr>]"

section \<open>Metadata validator (mcp-metadata-validator.ts)\<close>

fun index_of :: "char \<Rightarrow> string \<Rightarrow> nat option" where
  "index_of c [] = None"
| "index_of c (x # xs) = (if x = c then Some 0 else map_option Suc (index_of c xs))"

definition last_index_of :: "char \<Rightarrow> string \<Rightarrow> nat option" where
  "last_index_of c s = map_option (\<lambda>i. length s - 1 - i) (index_of c (rev s))"

definition cleanJSON :: "string \<Rightarrow> string" where
  "cleanJSON content =
     (let cleaned = trim content;
          cleaned = (case last_index_of CHR ''}'' cleaned of
                       None \<Rightarrow> cleaned
                     | Some lastBrace \<Rightarrow> take (lastBrace + 1) cleaned);
          cleaned = (case index_of CHR ''{'' cleaned of
                       None \<Rightarrow> cleaned
                     | Some firstBrace \<Rightarrow> drop firstBrace cleaned)
      in trim cleaned)"

text \<open>A template literal prints an absent value as \<open>undefined\<close>.\<close>

definition tpl :: "platform \<Rightarrow> json option \<Rightarrow> string" where
  "tpl P v = (case v of None \<Rightarrow> ''undefined'' | Some x \<Rightarrow> js_to_string P x)"

definition reportToolThreat ::
  "platform \<Rightarrow> int \<Rightarrow> string \<Rightarrow> json \<Rightarrow> json \<Rightarrow> ValidationContext \<Rightarrow> ThreatReport list" where
  "reportToolThreat P clock aktoApiToken toolData validationResp valCtx =
     (let filteredResponse = JObj [(''result'', JObj [(''tools'', JArr [toolData])])];
          toolName = get_prop toolData ''name'';
          customEndpoint = (case endpoint valCtx of None \<Rightarrow> ''undefined'' | Some e \<Rightarrow> e)
                           @ ''/tools/list/'' @ tpl P toolName;
          validationResult =
            \<lparr>allowed = False, modified = False, modifiedPayload = None,
             reason = Some (''Malicious MCP component detected: ''
                            @ tpl P (get_prop validationResp ''reason'')),
             metadata = Some [(''policy_id'', JStr ''MCPMaliciousComponent''),
                              (''validation'', validationResp)]\<rparr>;
          modifiedValCtx = valCtx\<lparr>endpoint := Some customEndpoint,
                                  ctx_responsePayload := Some (stringify P filteredResponse)\<rparr>
      in reportThreat P clock validationResult modifiedValCtx aktoApiToken)"

text \<open>
  The LLM is a parameter. The prompt is computed from the descriptor alone (its name,
  description and flattened input schema put into a fixed template), so the reply is
  taken as a function of the descriptor: \<open>llm tool\<close> is the content of the reply, or
  \<open>None\<close> when the call fails or has no content. Every exception after the name check
  is caught inside \<open>validateTool\<close> and leaves no report.
\<close>

definition validateTool ::
  "platform \<Rightarrow> (json \<Rightarrow> string option) \<Rightarrow> int \<Rightarrow> string \<Rightarrow> json \<Rightarrow> ValidationContext
     \<Rightarrow> error + ThreatReport list" where
  "validateTool P llm clock aktoApiToken tool valCtx =
     (case prop_of tool ''name'' of
        Inl e \<Rightarrow> Inl e
      | Inr toolName \<Rightarrow>
          if \<not> truthy toolName then Inr []
          else (case llm tool of
                  None \<Rightarrow> Inr []
                | Some content \<Rightarrow>
                    (case parse P (cleanJSON content) of
                       None \<Rightarrow> Inr []
                     | Some validationResp \<Rightarrow>
                         if validationResp = JNull then Inr []
                         else if js_gt P (get_prop validationResp ''maliciousMatchScore'') 0.75
                               \<or> js_lt P (get_prop validationResp
                                              ''toolNameDescriptionMatchScore'') double_0_7
                         then Inr (reportToolThreat P clock aktoApiToken tool validationResp valCtx)
                         else Inr [])))"

section \<open>Policy manager (policy-manager.ts)\<close>

text \<open>
  The answer of the policy backend to \<open>fetchMcpAuditInfo\<close>: the call throws, the status
  is not 2xx, or the body carries \<open>mcpAuditInfoList\<close> (possibly absent, possibly with
  \<open>null\<close> entries). The loop stores every entry under its \<open>resourceName\<close> as it is.
  The map is the table of the object's own keys: the assignment
  \<open>auditPolicies[policy.resourceName] = policy\<close> with the name \<open>__proto__\<close> replaces the
  prototype of the object and adds no key.
\<close>

datatype audit_response =
    FetchThrows
  | StatusNotOk
  | Body "AuditPolicy option list option"

definition assign_key :: "(string \<rightharpoonup> AuditPolicy) \<Rightarrow> string \<Rightarrow> AuditPolicy \<Rightarrow> (string \<rightharpoonup> AuditPolicy)" where
  "assign_key tab k v = (if k = ''__proto__'' then tab else tab(k \<mapsto> v))"

definition store_policy :: "(string \<rightharpoonup> AuditPolicy) \<Rightarrow> AuditPolicy option \<Rightarrow> (string \<rightharpoonup> AuditPolicy)" where
  "store_policy tab entry =
     (case entry of
        None \<Rightarrow> tab
      | Some policy \<Rightarrow> if resourceName policy \<noteq> []
                       then assign_key tab (resourceName policy) policy
                       else tab)"

definition fetchMcpAuditInfo :: "audit_response \<Rightarrow> (string \<rightharpoonup> AuditPolicy)" where
  "fetchMcpAuditInfo response =
     (case response of
        FetchThrows \<Rightarrow> Map.empty
      | StatusNotOk \<Rightarrow> Map.empty
      | Body mcpAuditInfoList \<Rightarrow> foldl store_policy Map.empty (list_or_empty mcpAuditInfoList))"

section \<open>The CIDR rule in the words of the specification\<close>

text \<open>
  The specification's reading of the CIDR check, written independently of the code: the
  encoding folds four octets with a left shift by 8, the mask is
  \<open>~(2^(32 - b) - 1)\<close> as an unsigned 32-bit value, and two addresses match when
  their top \<open>b\<close> bits agree.
\<close>

definition spec_ip_encoding :: "int \<Rightarrow> int \<Rightarrow> int \<Rightarrow> int \<Rightarrow> 32 word" where
  "spec_ip_encoding a b c d =
     push_bit 8 (push_bit 8 (push_bit 8 (word_of_int a) + word_of_int b) + word_of_int c)
       + word_of_int d"

definition spec_mask :: "nat \<Rightarrow> 32 word" where
  "spec_mask b = NOT (2 ^ (32 - b) - 1)"

definition top_bits_agree :: "nat \<Rightarrow> 32 word \<Rightarrow> 32 word \<Rightarrow> bool" where
  "top_bits_agree b u v = list_all (\<lambda>i. bit u (31 - i) = bit v (31 - i)) [0..<b]"

section \<open>The audit map as a list lookup\<close>

text \<open>
  What a map built by successive assignments holds under a name, said on the list of
  entries itself: the last entry of the list that carries the name.
\<close>

definition last_entry_named :: "string \<Rightarrow> AuditPolicy option list \<Rightarrow> AuditPolicy option" where
  "last_entry_named n entries =
     find (\<lambda>q. resourceName q = n) (rev (concat (map (\<lambda>e. case e of None \<Rightarrow> [] | Some q \<Rightarrow> [q]) entries)))"

section \<open>A concrete platform and a concrete engine for the examples\<close>

text \<open>
  The examples below run the model on literal inputs. They use a platform whose
  \<open>JSON.parse\<close> knows the payloads of the examples, whose \<open>JSON.stringify\<close> prints
  compact JSON and whose number printing is the decimal one for integers and for the two
  scores of the examples; on these inputs they agree with JavaScript. All numbers of
  the examples are doubles.
\<close>

function show_nat :: "nat \<Rightarrow> string" where
  "show_nat n = (if n < 10 then [''0123456789'' ! n]
                 else show_nat (n div 10) @ [''0123456789'' ! (n mod 10)])"
  by pat_completeness auto
termination
  by (relation "measure id") auto

definition demo_num_to_string :: "real \<Rightarrow> string" where
  "demo_num_to_string x =
     (if x = 0.875 then ''0.875''
      else if x = 0.25 then ''0.25''
      else if x < 0 then ''-'' @ show_nat (nat \<lfloor>- x\<rfloor>)
      else show_nat (nat \<lfloor>x\<rfloor>))"

definition dq :: string where
  "dq = [CHR 0x22]"

text \<open>
  The escapes of \<open>JSON.stringify\<close> inside a string: the quote, the backslash, the five
  short escapes, and the four-digit hexadecimal escape for the other control characters.
\<close>

definition hex_digit :: "nat \<Rightarrow> char" where
  "hex_digit n = ''0123456789abcdef'' ! n"

definition escape_char :: "char \<Rightarrow> string" where
  "escape_char c =
     (let n = (of_char c :: nat) in
      if n = 34 then [CHR 0x5C, CHR 0x22]
      else if n = 92 then [CHR 0x5C, CHR 0x5C]
      else if n = 8 then [CHR 0x5C, CHR ''b'']
      else if n = 9 then [CHR 0x5C, CHR ''t'']
      else if n = 10 then [CHR 0x5C, CHR ''n'']
      else if n = 12 then [CHR 0x5C, CHR ''f'']
      else if n = 13 then [CHR 0x5C, CHR ''r'']
      else if n < 32 then [CHR 0x5C, CHR ''u'', CHR ''0'', CHR ''0'',
                           hex_digit (n div 16), hex_digit (n mod 16)]
      else [c])"

definition quote_string :: "string \<Rightarrow> string" where
  "quote_string s = dq @ concat (map escape_char s) @ dq"

fun demo_stringify :: "json \<Rightarrow> string" where
  "demo_stringify JNull = ''null''"
| "demo_stringify (JBool b) = (if b then ''true'' else ''false'')"
| "demo_stringify (JNum x) = demo_num_to_string x"
| "demo_stringify (JStr s) = quote_string s"
| "demo_stringify (JArr xs) = ''['' @ join_with '','' (map demo_stringify xs) @ '']''"
| "demo_stringify (JObj kvs) =
     ''{'' @ join_with '','' (map (\<lambda>(k, v). quote_string k @ '':'' @ demo_stringify v) kvs)
     @ ''}''"

definition ping_payload :: string where
  \<open>ping_payload = ''{"jsonrpc":"2.0","id":1,"method":"ping"}''\<close>

definition delete_all_payload :: string where
  \<open>delete_all_payload = ''{"method":"tools/call","params":{"name":"delete_all"}}''\<close>

definition read_file_payload :: string where
  \<open>read_file_payload = ''{"method":"tools/call","params":{"name":"read_file"}}''\<close>

definition llm_verdict :: string where
  \<open>llm_verdict = ''{"isMalicious":true,"maliciousMatchScore":0.875,"toolNameDescriptionMatchScore":0.25,"reason":"mismatch"}''\<close>

definition demo_payloads :: "(string \<times> json) list" where
  "demo_payloads =
    [(ping_payload,
        JObj [(''jsonrpc'', JStr ''2.0''), (''id'', JNum 1), (''method'', JStr ''ping'')]),
     (delete_all_payload,
        JObj [(''method'', JStr ''tools/call''),
              (''params'', JObj [(''name'', JStr ''delete_all'')])]),
     (read_file_payload,
        JObj [(''method'', JStr ''tools/call''),
              (''params'', JObj [(''name'', JStr ''read_file'')])]),
     (llm_verdict,
        JObj [(''isMalicious'', JBool True), (''maliciousMatchScore'', JNum 0.875),
              (''toolNameDescriptionMatchScore'', JNum 0.25), (''reason'', JStr ''mismatch'')])]"

definition demo_platform :: platform where
  "demo_platform = \<lparr>parse = map_of demo_payloads, stringify = demo_stringify,
                     num_to_string = demo_num_to_string,
                     string_to_number = (\<lambda>s. if s = [] then Some 0 else None)\<rparr>"

text \<open>
  The engine of the examples knows two kinds of regex: the \<open>ssn\<close> literal of
  \<open>PII_PATTERNS\<close> (three digits, a dash, two digits, a dash, four digits, between word
  boundaries), and a source made of letters and digits only, which matches itself
  (in any case, under the flag \<open>i\<close>).
\<close>

definition is_digit :: "char \<Rightarrow> bool" where
  "is_digit c = (c \<in> set ''0123456789'')"

definition is_word_char :: "char \<Rightarrow> bool" where
  "is_word_char c =
     (c \<in> set ''abcdefghijklmnopqrstuvwxyzABCDEFGHIJKLMNOPQRSTUVWXYZ0123456789_'')"

definition word_boundary :: "string \<Rightarrow> nat \<Rightarrow> bool" where
  "word_boundary text i =
     ((0 < i \<and> i \<le> length text \<and> is_word_char (text ! (i - 1)))
      \<noteq> (i < length text \<and> is_word_char (text ! i)))"

definition ssn_at :: "string \<Rightarrow> nat \<Rightarrow> nat option" where
  "ssn_at text i =
     (if i + 11 \<le> length text
         \<and> list_all (\<lambda>j. is_digit (text ! (i + j))) [0, 1, 2, 4, 5, 7, 8, 9, 10]
         \<and> text ! (i + 3) = CHR ''-'' \<and> text ! (i + 6) = CHR ''-''
         \<and> word_boundary text i \<and> word_boundary text (i + 11)
      then Some (i + 11) else None)"

definition literal_at :: "string \<Rightarrow> string \<Rightarrow> nat \<Rightarrow> nat option" where
  "literal_at pat text i =
     (if i + length pat \<le> length text
         \<and> toLowerCase (take (length pat) (drop i text)) = toLowerCase pat
      then Some (i + length pat) else None)"

function search :: "(string \<Rightarrow> nat \<Rightarrow> nat option) \<Rightarrow> string \<Rightarrow> nat \<Rightarrow> (nat \<times> nat) option" where
  "search m text i =
     (if i > length text then None
      else (case m text i of
              Some e \<Rightarrow> Some (i, e)
            | None \<Rightarrow> search m text (Suc i)))"
  by pat_completeness auto
termination
  by (relation "measure (\<lambda>(m, text, i). Suc (length text) - i)") auto

definition is_alnum :: "char \<Rightarrow> bool" where
  "is_alnum c = (c \<in> set ''abcdefghijklmnopqrstuvwxyzABCDEFGHIJKLMNOPQRSTUVWXYZ0123456789'')"

definition demo_engine :: regex_engine where
  "demo_engine =
     \<lparr>re_valid = (\<lambda>src. list_all is_alnum src),
      re_exec = (\<lambda>r text i.
         if map_of PII_PATTERNS ''ssn'' = Some r then search ssn_at text i
         else if list_all is_alnum (source r) \<and> source r \<noteq> [] \<and> flags r = ''i''
              then search (literal_at (source r)) text i
         else None)\<rparr>"

definition demo_policy :: Policy where
  "demo_policy = \<lparr>policy_id = ''MCPGuardrails'', policy_name = ''demo'', active = True,
                   policy_action = ''block'',
                   filters = \<lparr>requestPayload = Some [\<lparr>rule_type = ''harmfulCategories'',
                                  pattern = None, action = Some ''block'', config = None\<rparr>],
                              responsePayload = Some [\<lparr>rule_type = ''promptAttacks'',
                                  pattern = None, action = Some ''block'', config = None\<rparr>]\<rparr>\<rparr>"

definition demo_ctx :: ValidationContext where
  "demo_ctx = \<lparr>ip = Some ''10.0.0.5'', endpoint = Some ''/mcp'', http_method = Some ''POST'',
                requestHeaders = None, responseHeaders = None, statusCode = Some 200,
                ctx_requestPayload = None, ctx_responsePayload = None, mcpServerName = None,
                policies = Some [demo_policy], auditPolicies = None, hasAuditRules = None\<rparr>"

definition rejected_policy :: AuditPolicy where
  "rejected_policy = \<lparr>resourceName = ''delete_all'', remarks = Some ''Rejected'',
                        markedBy = Some ''admin'', approvalConditions = None\<rparr>"

definition expired_server_policy :: AuditPolicy where
  "expired_server_policy =
     \<lparr>resourceName = ''github'', remarks = Some ''Conditionally Approved'',
      markedBy = Some ''admin'',
      approvalConditions = Some \<lparr>expiresAt = Some 1000, allowedIps = None,
                                  allowedIpRanges = None, whitelistedEndpoints = None\<rparr>\<rparr>"

definition padded_rejected_policy :: AuditPolicy where
  "padded_rejected_policy = \<lparr>resourceName = ''delete_all'',
                               remarks = Some ('' REJECTED'' @ [CHR 0xA0, CHR 0x0A]),
                               markedBy = Some ''admin'', approvalConditions = None\<rparr>"

definition padded_audit_ctx :: ValidationContext where
  "padded_audit_ctx = demo_ctx\<lparr>auditPolicies := Some [''delete_all'' \<mapsto> padded_rejected_policy],
                                hasAuditRules := Some True\<rparr>"

definition demo_audit_ctx :: ValidationContext where
  "demo_audit_ctx = demo_ctx\<lparr>auditPolicies := Some [''delete_all'' \<mapsto> rejected_policy],
                              hasAuditRules := Some True\<rparr>"

definition server_audit_ctx :: ValidationContext where
  "server_audit_ctx =
     demo_ctx\<lparr>mcpServerName := Some ''GitHub'',
               auditPolicies := Some [''delete_all'' \<mapsto> rejected_policy,
                                      ''github'' \<mapsto> expired_server_policy],
               hasAuditRules := Some True\<rparr>"

definition unflagged_audit_ctx :: ValidationContext where
  "unflagged_audit_ctx = demo_audit_ctx\<lparr>hasAuditRules := Some False, policies := Some []\<rparr>"

definition mixed_case_policy :: AuditPolicy where
  "mixed_case_policy = \<lparr>resourceName = ''Delete_All'', remarks = Some ''Rejected'',
                          markedBy = Some ''admin'', approvalConditions = None\<rparr>"

definition superseded_policy :: AuditPolicy where
  "superseded_policy = \<lparr>resourceName = ''Delete_All'', remarks = Some ''Approved'',
                          markedBy = Some ''guest'', approvalConditions = None\<rparr>"

definition weather_tool :: json where
  "weather_tool = JObj [(''name'', JStr ''get_weather''),
                        (''description'', JStr ''Executes arbitrary shell commands'')]"

definition verbose_llm :: "json \<Rightarrow> string option" where
  "verbose_llm tool = Some (''Verdict: '' @ llm_verdict @ '' (end)'')"

definition weather_response_json :: string where
  \<open>weather_response_json = ''{"result":{"tools":[{"name":"get_weather","description":"Executes arbitrary shell commands"}]}}''\<close>

definition ssn_block_rule :: FilterRule where
  "ssn_block_rule = \<lparr>rule_type = ''pii'', pattern = Some ''ssn'', action = Some ''block'',
                       config = None\<rparr>"

definition secret_redact_rule :: FilterRule where
  "secret_redact_rule = \<lparr>rule_type = ''regex'', pattern = Some ''secret'',
                           action = Some ''redact'', config = None\<rparr>"

definition invalid_scanner :: "SingleScanRequest \<Rightarrow> ScanResult option" where
  "invalid_scanner req = Some \<lparr>res_scanner_name = req_scanner_name req, is_valid = False,
                                risk_score = 0.875, details = None\<rparr>"

definition demo_kv :: "int \<Rightarrow> kv_store" where
  "demo_kv n = [''ratelimit:read_file'' \<mapsto>
                  \<lparr>cell = \<lparr>cell_count = n, cell_resetAt = 61000\<rparr>, expirationTtl = 60\<rparr>]"

definition demo_rate_limit :: RateLimitConfig where
  "demo_rate_limit = \<lparr>enabled = True, limit = 2, windowSeconds = 60, identifierTypes = [TOOL]\<rparr>"

section \<open>Safe methods\<close>

lemmas demo_defs = demo_platform_def demo_payloads_def ping_payload_def delete_all_payload_def
  read_file_payload_def llm_verdict_def

lemma safe_method_no_resource:
  assumes "get_prop req ''method'' = Some (JStr m)" and "m \<in> set SAFE_MCP_METHODS"
  shows "extractResourceName req = Inr None"
proof -
  obtain kvs where req: "req = JObj kvs"
    using assms(1) by (cases req) auto
  have "m \<noteq> ''tools/call''" "m \<noteq> ''prompts/get''" "m \<noteq> ''resources/read''"
    using assms(2) by (auto simp: SAFE_MCP_METHODS_def)
  then show ?thesis
    using assms(1) req
    by (auto simp: extractResourceName_def split: option.splits)
qed

lemma safe_method_extract_empty:
  assumes "parse P payload = Some req" and "get_prop req ''method'' = Some (JStr m)"
    and "m \<in> set SAFE_MCP_METHODS"
  shows "extractUserControlledFields P payload = []"
proof -
  obtain kvs where req: "req = JObj kvs"
    using assms(2) by (cases req) auto
  have "m \<noteq> []"
    using assms(3) by (auto simp: SAFE_MCP_METHODS_def)
  then show ?thesis
    using assms req
    by (auto simp: extractUserControlledFields_def isSafeMCPMethod_def)
qed

text \<open>
  Claim C1. For every raw payload that parses as JSON and whose \<open>method\<close> field is one
  of the safe methods, for every shape of \<open>params\<close>, every policy set and every audit
  table, \<open>validateRequest\<close> returns \<open>{allowed: true, modified: false}\<close> and issues no
  call to the scanner.
\<close>

theorem safe_method_short_circuit:
  assumes "parse P payload = Some req" and "get_prop req ''method'' = Some (JStr m)"
    and "m \<in> set SAFE_MCP_METHODS"
  shows "fst (validateRequest P fetch now payload valCtx)
           = Inr \<lparr>allowed = True, modified = False, modifiedPayload = None,
                  reason = None, metadata = None\<rparr>
         \<and> scan_calls (snd (validateRequest P fetch now payload valCtx)) = []"
proof -
  have audit: "audit_validateRequest P now payload valCtx = Inr None"
    using assms safe_method_no_resource[OF assms(2,3)]
    by (simp add: audit_validateRequest_def)
  have ex: "extractUserControlledFields P payload = []"
    by (rule safe_method_extract_empty[OF assms])
  show ?thesis
    by (simp add: validateRequest_def audit ex allow_result_def)
qed

theorem safe_method_short_circuit_witness:
  "parse demo_platform ping_payload
     = Some (JObj [(''jsonrpc'', JStr ''2.0''), (''id'', JNum 1), (''method'', JStr ''ping'')])
   \<and> ''ping'' \<in> set SAFE_MCP_METHODS
   \<and> fst (validateRequest demo_platform
            invalid_scanner 0 ping_payload demo_ctx)
       = Inr \<lparr>allowed = True, modified = False, modifiedPayload = None,
              reason = None, metadata = None\<rparr>
   \<and> scan_calls (snd (validateRequest demo_platform
            invalid_scanner 0 ping_payload demo_ctx)) = []"
proof -
  have h1: "parse demo_platform ping_payload
     = Some (JObj [(''jsonrpc'', JStr ''2.0''), (''id'', JNum 1), (''method'', JStr ''ping'')])"
    by (simp add: demo_defs)
  have h2: "get_prop (JObj [(''jsonrpc'', JStr ''2.0''), (''id'', JNum 1),
                            (''method'', JStr ''ping'')]) ''method'' = Some (JStr ''ping'')"
    by simp
  have h3: "''ping'' \<in> set SAFE_MCP_METHODS"
    by (simp add: SAFE_MCP_METHODS_def)
  from safe_method_short_circuit[OF h1 h2 h3] h1 h3 show ?thesis
    by blast
qed

section \<open>Scanner client\<close>

lemma tally_all_failed:
  "list_all (\<lambda>x. \<exists>e. x = Inl e) xs \<Longrightarrow>
     tally xs acc = acc\<lparr>failure_count := failure_count acc + length xs\<rparr>"
  by (induction xs arbitrary: acc) auto

text \<open>
  Claim C8. For every text longer than 1 MiB (1048576) and every non-empty list of
  scanners, \<open>scan\<close> rejects the text at once: no POST is issued, the response has an
  empty list of results, no success, and a failure count equal to the number of
  scanners, so no \<open>is_valid = false\<close> result reaches the orchestrator.
\<close>

theorem scan_oversized_text:
  assumes "length text > 1048576" and "scanners \<noteq> []"
  shows "scan fetch text scanners =
           (\<lparr>results = [], success_count = 0, failure_count = length scanners\<rparr>, [])"
proof -
  have big: "length text > MAX_REQUEST_BODY_SIZE"
    using assms(1) by (simp add: MAX_REQUEST_BODY_SIZE_def)
  have each: "map (callSingleScanAPI fetch text) scanners
                = map (\<lambda>s. (Inl PayloadTooLarge, [])) scanners"
    using big by (simp add: callSingleScanAPI_def)
  have fsts: "map fst (map (callSingleScanAPI fetch text) scanners)
                = replicate (length scanners) (Inl PayloadTooLarge)"
    unfolding each by (simp add: map_replicate_const comp_def)
  have snds: "concat (map snd (map (callSingleScanAPI fetch text) scanners)) = []"
    unfolding each by simp
  have "tally (replicate (length scanners) (Inl PayloadTooLarge))
          \<lparr>results = [], success_count = 0, failure_count = 0\<rparr>
        = \<lparr>results = [], success_count = 0, failure_count = length scanners\<rparr>"
    by (subst tally_all_failed) (simp_all add: list_all_length)
  then show ?thesis
    using assms(2) fsts snds by (simp add: scan_def Let_def)
qed

theorem scan_oversized_text_witness:
  "length (replicate 1048577 (CHR ''a'')) > 1048576
   \<and> scan invalid_scanner
        (replicate 1048577 (CHR ''a''))
        [\<lparr>scanner_type = ''prompt'', scanner_name = ''Toxicity'', scanner_config = JObj []\<rparr>,
         \<lparr>scanner_type = ''prompt'', scanner_name = ''PromptInjection'',
          scanner_config = JObj []\<rparr>]
       = (\<lparr>results = [], success_count = 0, failure_count = 2\<rparr>, [])"
proof -
  have h1: "length (replicate 1048577 (CHR ''a'')) > 1048576"
    by simp
  have h2: "[\<lparr>scanner_type = ''prompt'', scanner_name = ''Toxicity'', scanner_config = JObj []\<rparr>,
             \<lparr>scanner_type = ''prompt'', scanner_name = ''PromptInjection'',
              scanner_config = JObj []\<rparr>] \<noteq> []"
    by simp
  from scan_oversized_text[OF h1 h2] h1 show ?thesis
    by simp
qed

section \<open>Rate limiting\<close>

lemma ceil_div_ceiling: "ceil_div a 1000 = \<lceil>real_of_int a / 1000\<rceil>"
proof -
  have "\<lfloor>real_of_int (- a) / real_of_int 1000\<rfloor> = (- a) div 1000"
    by (rule floor_divide_of_int_eq)
  then show ?thesis
    by (simp add: ceil_div_def ceiling_def)
qed

text \<open>
  Claim C5. \<open>checkRateLimit\<close> follows the windowed counter protocol in every state of
  the cell: when the cell is absent or \<open>now > resetAt\<close> it writes
  \<open>{count: 1, resetAt: now + windowSeconds * 1000}\<close> with TTL \<open>windowSeconds\<close> and
  allows with count 1; otherwise when \<open>count >= limit\<close> it blocks and writes nothing;
  otherwise it writes \<open>{count: count + 1, resetAt}\<close> with TTL
  \<open>ceil((resetAt - now) / 1000)\<close> and allows. The blocked result of the validator has
  \<open>policy_id = "RateLimitPolicy"\<close>, the tool name, the current count, the limit,
  \<open>reset_at\<close> and \<open>reset_in_seconds\<close> in its metadata, and a reason that names the
  tool and the seconds until the reset.
\<close>

theorem checkRateLimit_protocol:
  "(kv key = None \<longrightarrow>
      checkRateLimit kv now key lmt window =
        (\<lparr>rl_allowed = True, currentCount = 1, resetAt = now + window * 1000\<rparr>,
         kv(key \<mapsto> \<lparr>cell = \<lparr>cell_count = 1, cell_resetAt = now + window * 1000\<rparr>,
                     expirationTtl = window\<rparr>)))
   \<and> (\<forall>c. kv key = Some c \<and> now > cell_resetAt (cell c) \<longrightarrow>
      checkRateLimit kv now key lmt window =
        (\<lparr>rl_allowed = True, currentCount = 1, resetAt = now + window * 1000\<rparr>,
         kv(key \<mapsto> \<lparr>cell = \<lparr>cell_count = 1, cell_resetAt = now + window * 1000\<rparr>,
                     expirationTtl = window\<rparr>)))
   \<and> (\<forall>c. kv key = Some c \<and> now \<le> cell_resetAt (cell c) \<and> cell_count (cell c) \<ge> lmt \<longrightarrow>
      checkRateLimit kv now key lmt window =
        (\<lparr>rl_allowed = False, currentCount = cell_count (cell c),
          resetAt = cell_resetAt (cell c)\<rparr>, kv))
   \<and> (\<forall>c. kv key = Some c \<and> now \<le> cell_resetAt (cell c) \<and> cell_count (cell c) < lmt \<longrightarrow>
      checkRateLimit kv now key lmt window =
        (\<lparr>rl_allowed = True, currentCount = cell_count (cell c) + 1,
          resetAt = cell_resetAt (cell c)\<rparr>,
         kv(key \<mapsto> \<lparr>cell = \<lparr>cell_count = cell_count (cell c) + 1,
                             cell_resetAt = cell_resetAt (cell c)\<rparr>,
                     expirationTtl = \<lceil>real_of_int (cell_resetAt (cell c) - now) / 1000\<rceil>\<rparr>)))
   \<and> (\<forall>cfg req tool c.
        rateLimitConfig = Some cfg \<and> enabled cfg \<and> parse P payload = Some req
        \<and> extractToolName req = Inr (Some tool)
        \<and> kv (getRateLimitKey (join_with '':''
               (map (identifier_part valCtx (js_to_string P tool)) (identifierTypes cfg)))) = Some c
        \<and> now \<le> cell_resetAt (cell c) \<and> cell_count (cell c) \<ge> limit cfg \<longrightarrow>
      rl_validateRequest P kv now now2 payload valCtx rateLimitConfig =
        (Inr (Some \<lparr>allowed = False, modified = False, modifiedPayload = None,
           reason = Some (''Rate limit exceeded for tool '' @ [CHR 0x27] @ js_to_string P tool
              @ [CHR 0x27] @ ''. Try again in ''
              @ num_to_string P (of_int \<lceil>real_of_int (cell_resetAt (cell c) - now2) / 1000\<rceil>)
              @ '' seconds.''),
           metadata = Some
             [(''policy_id'', JStr ''RateLimitPolicy''),
              (''tool_name'', tool),
              (''current_count'', JNum (of_int (cell_count (cell c)))),
              (''limit'', JNum (of_int (limit cfg))),
              (''reset_at'', JNum (of_int (cell_resetAt (cell c)))),
              (''reset_in_seconds'',
                 JNum (of_int \<lceil>real_of_int (cell_resetAt (cell c) - now2) / 1000\<rceil>))]\<rparr>), kv))"
  by (auto simp add: checkRateLimit_def rl_validateRequest_def Let_def ceil_div_ceiling
        RATE_LIMIT_POLICY_CATEGORY_def)


theorem checkRateLimit_protocol_witness:
  "checkRateLimit Map.empty 1000 ''ratelimit:read_file'' 2 60
     = (\<lparr>rl_allowed = True, currentCount = 1, resetAt = 61000\<rparr>, demo_kv 1)
   \<and> checkRateLimit (demo_kv 2) 61001 ''ratelimit:read_file'' 2 60
     = (\<lparr>rl_allowed = True, currentCount = 1, resetAt = 121001\<rparr>,
        (demo_kv 2)(''ratelimit:read_file'' \<mapsto>
           \<lparr>cell = \<lparr>cell_count = 1, cell_resetAt = 121001\<rparr>, expirationTtl = 60\<rparr>))
   \<and> checkRateLimit (demo_kv 2) 2000 ''ratelimit:read_file'' 2 60
     = (\<lparr>rl_allowed = False, currentCount = 2, resetAt = 61000\<rparr>, demo_kv 2)
   \<and> checkRateLimit (demo_kv 1) 1500 ''ratelimit:read_file'' 2 60
     = (\<lparr>rl_allowed = True, currentCount = 2, resetAt = 61000\<rparr>,
        (demo_kv 1)(''ratelimit:read_file'' \<mapsto>
           \<lparr>cell = \<lparr>cell_count = 2, cell_resetAt = 61000\<rparr>, expirationTtl = 60\<rparr>))
   \<and> rl_validateRequest demo_platform (demo_kv 2) 2000 2001 read_file_payload demo_ctx
        (Some demo_rate_limit)
     = (Inr (Some \<lparr>allowed = False, modified = False, modifiedPayload = None,
           reason = Some (''Rate limit exceeded for tool '' @ [CHR 0x27] @ ''read_file''
              @ [CHR 0x27] @ ''. Try again in 59 seconds.''),
           metadata = Some
             [(''policy_id'', JStr ''RateLimitPolicy''),
              (''tool_name'', JStr ''read_file''),
              (''current_count'', JNum 2),
              (''limit'', JNum 2),
              (''reset_at'', JNum 61000),
              (''reset_in_seconds'', JNum 59)]\<rparr>), demo_kv 2)"
proof -
  have k: "\<And>n. demo_kv n ''ratelimit:read_file''
             = Some \<lparr>cell = \<lparr>cell_count = n, cell_resetAt = 61000\<rparr>, expirationTtl = 60\<rparr>"
    by (simp add: demo_kv_def)
  have c1: "checkRateLimit Map.empty 1000 ''ratelimit:read_file'' 2 60
     = (\<lparr>rl_allowed = True, currentCount = 1, resetAt = 61000\<rparr>, demo_kv 1)"
    using checkRateLimit_protocol[where kv = Map.empty and key = "''ratelimit:read_file''"
        and now = 1000 and lmt = 2 and window = 60, THEN conjunct1]
    by (simp add: demo_kv_def)
  have c2: "checkRateLimit (demo_kv 2) 61001 ''ratelimit:read_file'' 2 60
     = (\<lparr>rl_allowed = True, currentCount = 1, resetAt = 121001\<rparr>,
        (demo_kv 2)(''ratelimit:read_file'' \<mapsto>
           \<lparr>cell = \<lparr>cell_count = 1, cell_resetAt = 121001\<rparr>, expirationTtl = 60\<rparr>))"
    using checkRateLimit_protocol[where kv = "demo_kv 2" and key = "''ratelimit:read_file''"
        and now = 61001 and lmt = 2 and window = 60,
        THEN conjunct2, THEN conjunct1, rule_format, OF conjI, OF k]
    by simp
  have c3: "checkRateLimit (demo_kv 2) 2000 ''ratelimit:read_file'' 2 60
     = (\<lparr>rl_allowed = False, currentCount = 2, resetAt = 61000\<rparr>, demo_kv 2)"
    using checkRateLimit_protocol[where kv = "demo_kv 2" and key = "''ratelimit:read_file''"
        and now = 2000 and lmt = 2 and window = 60,
        THEN conjunct2, THEN conjunct2, THEN conjunct1, rule_format, OF conjI, OF k]
    by simp
  have c4: "checkRateLimit (demo_kv 1) 1500 ''ratelimit:read_file'' 2 60
     = (\<lparr>rl_allowed = True, currentCount = 2, resetAt = 61000\<rparr>,
        (demo_kv 1)(''ratelimit:read_file'' \<mapsto>
           \<lparr>cell = \<lparr>cell_count = 2, cell_resetAt = 61000\<rparr>, expirationTtl = 60\<rparr>))"
    using checkRateLimit_protocol[where kv = "demo_kv 1" and key = "''ratelimit:read_file''"
        and now = 1500 and lmt = 2 and window = 60,
        THEN conjunct2, THEN conjunct2, THEN conjunct2, THEN conjunct1, rule_format,
        OF conjI, OF k]
    by simp
  have p: "parse demo_platform read_file_payload
             = Some (JObj [(''method'', JStr ''tools/call''),
                           (''params'', JObj [(''name'', JStr ''read_file'')])])"
    by (simp add: demo_defs)
  have t: "extractToolName (JObj [(''method'', JStr ''tools/call''),
                                  (''params'', JObj [(''name'', JStr ''read_file'')])])
             = Inr (Some (JStr ''read_file''))"
    by (simp add: extractToolName_def)
  have hyp: "Some demo_rate_limit = Some demo_rate_limit \<and> enabled demo_rate_limit
       \<and> parse demo_platform read_file_payload
             = Some (JObj [(''method'', JStr ''tools/call''),
                           (''params'', JObj [(''name'', JStr ''read_file'')])])
       \<and> extractToolName (JObj [(''method'', JStr ''tools/call''),
                                  (''params'', JObj [(''name'', JStr ''read_file'')])])
             = Inr (Some (JStr ''read_file''))
       \<and> demo_kv 2 (getRateLimitKey (join_with '':''
               (map (identifier_part demo_ctx (js_to_string demo_platform (JStr ''read_file'')))
                    (identifierTypes demo_rate_limit))))
           = Some \<lparr>cell = \<lparr>cell_count = 2, cell_resetAt = 61000\<rparr>, expirationTtl = 60\<rparr>
       \<and> 2000 \<le> cell_resetAt (cell \<lparr>cell = \<lparr>cell_count = 2, cell_resetAt = 61000\<rparr>,
                                       expirationTtl = 60\<rparr>)
       \<and> cell_count (cell \<lparr>cell = \<lparr>cell_count = 2, cell_resetAt = 61000\<rparr>,
                             expirationTtl = 60\<rparr>) \<ge> limit demo_rate_limit"
    using p t
    by (simp add: getRateLimitKey_def join_with_def identifier_part_def k demo_rate_limit_def)
  have c5: "rl_validateRequest demo_platform (demo_kv 2) 2000 2001 read_file_payload demo_ctx
        (Some demo_rate_limit)
     = (Inr (Some \<lparr>allowed = False, modified = False, modifiedPayload = None,
           reason = Some (''Rate limit exceeded for tool '' @ [CHR 0x27] @ ''read_file''
              @ [CHR 0x27] @ ''. Try again in 59 seconds.''),
           metadata = Some
             [(''policy_id'', JStr ''RateLimitPolicy''),
              (''tool_name'', JStr ''read_file''),
              (''current_count'', JNum 2),
              (''limit'', JNum 2),
              (''reset_at'', JNum 61000),
              (''reset_in_seconds'', JNum 59)]\<rparr>), demo_kv 2)"
    using checkRateLimit_protocol[where kv = "demo_kv 2" and now = 2000 and ?now2.0 = 2001
        and P = demo_platform and payload = read_file_payload and valCtx = demo_ctx
        and rateLimitConfig = "Some demo_rate_limit",
        THEN conjunct2, THEN conjunct2, THEN conjunct2, THEN conjunct2, rule_format, OF hyp]
    by (simp add: demo_platform_def demo_num_to_string_def demo_rate_limit_def)
  from c1 c2 c3 c4 c5 show ?thesis
    by (intro conjI)
qed


section \<open>CIDR matching\<close>

lemma split_on_absent: "c \<notin> set s \<Longrightarrow> split_on c s = [s]"
  by (induction s) auto

lemma split_on_first: "c \<notin> set x \<Longrightarrow> split_on c (x @ c # r) = x # split_on c r"
  by (induction x) auto

lemma word_of_shl8:
  "(word_of_int (shl8 (Some a)) :: 32 word) = push_bit 8 (word_of_int a)"
  by (simp add: shl8_def)

lemma shl8_zero: "shl8 (Some 0) = 0"
  by (simp add: shl8_def)

lemma ipToNumber_octets:
  assumes "map parseInt (split_on CHR ''.'' addr) = [Some a, Some b, Some c, Some d]"
  shows "ipToNumber addr = spec_ip_encoding a b c d"
proof -
  obtain s1 s2 s3 s4 where parts: "split_on CHR ''.'' addr = [s1, s2, s3, s4]"
    and p: "parseInt s1 = Some a" "parseInt s2 = Some b" "parseInt s3 = Some c"
           "parseInt s4 = Some d"
    using assms by (auto simp: map_eq_Cons_conv)
  have "foldl ip_step (Some 0) [s1, s2, s3, s4]
          = Some (shl8 (Some (shl8 (Some (shl8 (Some (shl8 (Some 0) + a)) + b)) + c)) + d)"
    by (simp add: ip_step_def p)
  then show ?thesis
    by (simp add: ipToNumber_def parts spec_ip_encoding_def word_of_shl8 shl8_zero)
qed

lemma cidr_mask_spec: "b \<le> 32 \<Longrightarrow> cidr_mask (Some (int b)) = spec_mask b"
  by (simp add: cidr_mask_def spec_mask_def Let_def nat_diff_distrib')

lemma spec_mask_eq: "spec_mask b = NOT (mask (32 - b))"
  by (simp add: spec_mask_def mask_eq_exp_minus_1)

lemma masked_eq_iff_bits:
  fixes u v :: "32 word"
  shows "(u AND NOT (mask n)) = (v AND NOT (mask n))
           \<longleftrightarrow> (\<forall>i. n \<le> i \<and> i < 32 \<longrightarrow> bit u i = bit v i)"
proof
  assume eq: "(u AND NOT (mask n)) = (v AND NOT (mask n))"
  show "\<forall>i. n \<le> i \<and> i < 32 \<longrightarrow> bit u i = bit v i"
  proof (intro allI impI)
    fix i assume i: "n \<le> i \<and> i < 32"
    have "bit (u AND NOT (mask n)) i = bit (v AND NOT (mask n)) i"
      by (simp only: eq)
    with i show "bit u i = bit v i"
      by (simp add: bit_and_iff bit_not_iff bit_mask_iff)
  qed
next
  assume bits: "\<forall>i. n \<le> i \<and> i < 32 \<longrightarrow> bit u i = bit v i"
  show "(u AND NOT (mask n)) = (v AND NOT (mask n))"
  proof (rule bit_word_eqI)
    fix i assume "i < LENGTH(32)"
    then show "bit (u AND NOT (mask n)) i = bit (v AND NOT (mask n)) i"
      using bits by (auto simp: bit_and_iff bit_not_iff bit_mask_iff)
  qed
qed

lemma top_bits_agree_iff:
  assumes "b \<le> 32"
  shows "top_bits_agree b u v \<longleftrightarrow> (\<forall>i. 32 - b \<le> i \<and> i < 32 \<longrightarrow> bit u i = bit v i)"
proof
  assume t: "top_bits_agree b u v"
  show "\<forall>i. 32 - b \<le> i \<and> i < 32 \<longrightarrow> bit u i = bit v i"
  proof (intro allI impI)
    fix i assume i: "32 - b \<le> i \<and> i < 32"
    then have "31 - i < b" using assms by arith
    with t have "bit u (31 - (31 - i)) = bit v (31 - (31 - i))"
      by (simp add: top_bits_agree_def list_all_iff)
    moreover have "31 - (31 - i) = i" using i by arith
    ultimately show "bit u i = bit v i" by simp
  qed
next
  assume bits: "\<forall>i. 32 - b \<le> i \<and> i < 32 \<longrightarrow> bit u i = bit v i"
  show "top_bits_agree b u v"
    unfolding top_bits_agree_def list_all_iff
  proof
    fix j assume "j \<in> set [0..<b]"
    then have "32 - b \<le> 31 - j \<and> 31 - j < 32" using assms by auto
    with bits show "bit u (31 - j) = bit v (31 - j)" by blast
  qed
qed

text \<open>
  Claim C7. For an address \<open>y\<close> and a CIDR string \<open>x/bits\<close> whose dotted parts parse to
  four octets each and whose bit count \<open>b\<close> is between 0 and 32, \<open>isIPInCIDR\<close> is true
  exactly when the top \<open>b\<close> bits of the two 32-bit encodings agree; the encoding of the
  code is the fold of the octets with a left shift by 8, and the test is the equality
  under the mask \<open>~(2^(32 - b) - 1)\<close>.
\<close>

theorem isIPInCIDR_top_bits:
  assumes "map parseInt (split_on CHR ''.'' y) = [Some y1, Some y2, Some y3, Some y4]"
    and "map parseInt (split_on CHR ''.'' x) = [Some x1, Some x2, Some x3, Some x4]"
    and "CHR ''/'' \<notin> set x" and "CHR ''/'' \<notin> set bits"
    and "parseInt bits = Some (int b)" and "b \<le> 32"
  shows "ipToNumber y = spec_ip_encoding y1 y2 y3 y4
         \<and> ipToNumber x = spec_ip_encoding x1 x2 x3 x4
         \<and> isIPInCIDR y (x @ ''/'' @ bits)
             = top_bits_agree b (spec_ip_encoding y1 y2 y3 y4) (spec_ip_encoding x1 x2 x3 x4)
         \<and> isIPInCIDR y (x @ ''/'' @ bits)
             = ((spec_ip_encoding y1 y2 y3 y4 AND spec_mask b)
                  = (spec_ip_encoding x1 x2 x3 x4 AND spec_mask b))"
proof -
  have ey: "ipToNumber y = spec_ip_encoding y1 y2 y3 y4"
    by (rule ipToNumber_octets[OF assms(1)])
  have ex: "ipToNumber x = spec_ip_encoding x1 x2 x3 x4"
    by (rule ipToNumber_octets[OF assms(2)])
  have ne: "bits \<noteq> []"
    using assms(5) by (auto simp: parseInt_def)
  have parts: "split_on CHR ''/'' (x @ CHR ''/'' # bits) = [x, bits]"
    using split_on_first[OF assms(3), of bits] split_on_absent[OF assms(4)] by simp
  have code: "isIPInCIDR y (x @ ''/'' @ bits)
                = ((ipToNumber y AND spec_mask b) = (ipToNumber x AND spec_mask b))"
    using ne by (simp add: isIPInCIDR_def parts assms(5) cidr_mask_spec[OF assms(6)] Let_def)
  have bits: "((ipToNumber y AND spec_mask b) = (ipToNumber x AND spec_mask b))
                = top_bits_agree b (ipToNumber y) (ipToNumber x)"
    by (simp add: spec_mask_eq masked_eq_iff_bits top_bits_agree_iff[OF assms(6)])
  show ?thesis
    using ey ex code bits by simp
qed

theorem isIPInCIDR_top_bits_witness:
  "isIPInCIDR ''10.0.0.5'' (''10.0.0.0'' @ ''/'' @ ''24'')
     = top_bits_agree 24 (spec_ip_encoding 10 0 0 5) (spec_ip_encoding 10 0 0 0)
   \<and> isIPInCIDR ''10.0.0.5'' ''10.0.0.0/24''
   \<and> \<not> isIPInCIDR ''10.0.1.5'' ''10.0.0.0/24''
   \<and> ipToNumber ''10.0.1.5'' = 167772421"
proof -
  have p: "parseInt ''10'' = Some 10" "parseInt ''0'' = Some 0" "parseInt ''1'' = Some 1"
          "parseInt ''5'' = Some 5" "parseInt ''24'' = Some (int 24)"
    by (simp_all add: parseInt_def digit_val_def is_space_def)
  have h1: "map parseInt (split_on CHR ''.'' ''10.0.0.5'') = [Some 10, Some 0, Some 0, Some 5]"
    by (simp add: p)
  have h1': "map parseInt (split_on CHR ''.'' ''10.0.1.5'') = [Some 10, Some 0, Some 1, Some 5]"
    by (simp add: p)
  have h2: "map parseInt (split_on CHR ''.'' ''10.0.0.0'') = [Some 10, Some 0, Some 0, Some 0]"
    by (simp add: p)
  have h3: "CHR ''/'' \<notin> set ''10.0.0.0''" by simp
  have h4: "CHR ''/'' \<notin> set ''24''" by simp
  have h6: "(24::nat) \<le> 32" by simp
  note a = isIPInCIDR_top_bits[OF h1 h2 h3 h4 p(5) h6]
  note b = isIPInCIDR_top_bits[OF h1' h2 h3 h4 p(5) h6]
  have m24: "spec_mask 24 = 4294967040"
    by (simp add: spec_mask_def)
  have e1: "spec_ip_encoding 10 0 0 5 = 167772165" "spec_ip_encoding 10 0 0 0 = 167772160"
           "spec_ip_encoding 10 0 1 5 = 167772421"
    by (simp_all add: spec_ip_encoding_def)
  have first: "isIPInCIDR ''10.0.0.5'' (''10.0.0.0'' @ ''/'' @ ''24'')
     = top_bits_agree 24 (spec_ip_encoding 10 0 0 5) (spec_ip_encoding 10 0 0 0)"
    by (rule a[THEN conjunct2, THEN conjunct2, THEN conjunct1])
  have yes: "isIPInCIDR ''10.0.0.5'' ''10.0.0.0/24''"
    using a[THEN conjunct2, THEN conjunct2, THEN conjunct2] by (simp add: m24 e1)
  have no: "\<not> isIPInCIDR ''10.0.1.5'' ''10.0.0.0/24''"
    using b[THEN conjunct2, THEN conjunct2, THEN conjunct2] by (simp add: m24 e1)
  have enc: "ipToNumber ''10.0.1.5'' = 167772421"
    using b[THEN conjunct1] by (simp add: e1)
  from first yes no enc show ?thesis
    by (intro conjI)
qed

section \<open>Runs of the model on the examples\<close>

lemma run_extract_read_file:
  "extractUserControlledFields demo_platform read_file_payload
     = ''Tool: read_file'' @ nl @ ''Arguments:'' @ nl @ ''{}'' @ nl @ ''Context:'' @ nl
       @ ''origin: mcp_call''"
  by (simp add: extractUserControlledFields_def demo_defs isSafeMCPMethod_def
        SAFE_MCP_METHODS_def extractFromParams_def Let_def)

lemma run_collect_tasks:
  "collect_tasks ''prompt'' requestPayload [demo_policy] =
     [\<lparr>scanner_type = ''prompt'', scanner_name = ''Toxicity'', scanner_config = JObj [],
       policyId = ''MCPGuardrails'', policyName = ''demo''\<rparr>]"
  by (simp add: collect_tasks_def demo_policy_def tasks_of_rule_def isScannerFilterType_def
        getScannersForFilterType_def list_or_empty_def)

lemma run_scanner_block:
  "fst (validateRequest demo_platform invalid_scanner 0 read_file_payload demo_ctx)
     = Inr \<lparr>allowed = False, modified = False, modifiedPayload = None,
            reason = Some ''Blocked by scanner: Toxicity (risk score: 0.875)'',
            metadata = Some [(''policy_id'', JStr ''MCPGuardrails''),
                             (''scanner'', JStr ''Toxicity''), (''risk_score'', JNum 0.875)]\<rparr>"
proof -
  have ne: "read_file_payload \<noteq> []"
    by (simp add: read_file_payload_def)
  have ex: "extractUserControlledFields demo_platform read_file_payload \<noteq> []"
    by (simp add: run_extract_read_file)
  have small: "\<not> length (extractUserControlledFields demo_platform read_file_payload)
                    > MAX_REQUEST_BODY_SIZE"
    by (simp add: run_extract_read_file nl_def MAX_REQUEST_BODY_SIZE_def)
  show ?thesis
    using ne ex small
    by (simp add: validateRequest_def demo_ctx_def list_or_empty_def run_collect_tasks scan_def
          callSingleScanAPI_def decide_def scanner_block_def Let_def invalid_scanner_def
          demo_platform_def demo_num_to_string_def)
qed

lemma run_pii_first:
  "pii_validate demo_engine pii_initial ''123-45-6789'' ssn_block_rule demo_policy
     = (Inr \<lparr>allowed = False, modified = False, modifiedPayload = None,
              reason = Some ''Blocked due to PII detection: ssn'',
              metadata = Some [(''policy_id'', JStr ''MCPGuardrails''),
                               (''rule_type'', JStr ''pii''), (''pii_type'', JStr ''ssn'')]\<rparr>,
        pii_initial(''ssn'' := 11))"
  by (simp add: pii_validate_def getPIIRegex_def toLowerCase_def lower_char_def PII_PATTERNS_def
       bsl_def test_global_def pii_initial_def demo_engine_def ssn_at_def is_digit_def
       word_boundary_def is_word_char_def demo_policy_def ssn_block_rule_def Let_def)

lemma run_pii_second:
  "pii_validate demo_engine (pii_initial(''ssn'' := 11)) ''123-45-6789'' ssn_block_rule
       demo_policy
     = (Inr \<lparr>allowed = True, modified = False, modifiedPayload = None, reason = None,
              metadata = None\<rparr>, pii_initial)"
  by (simp add: pii_validate_def getPIIRegex_def toLowerCase_def lower_char_def PII_PATTERNS_def
       bsl_def test_global_def pii_initial_def demo_engine_def ssn_at_def is_digit_def
       word_boundary_def is_word_char_def demo_policy_def ssn_block_rule_def Let_def
       allow_result_def fun_eq_iff)

lemma run_rate_limit_block:
  "fst (rl_validateRequest demo_platform (demo_kv 2) 2000 2001 read_file_payload demo_ctx
          (Some demo_rate_limit))
     = Inr (Some \<lparr>allowed = False, modified = False, modifiedPayload = None,
           reason = Some (''Rate limit exceeded for tool '' @ [CHR 0x27] @ ''read_file''
              @ [CHR 0x27] @ ''. Try again in 59 seconds.''),
           metadata = Some
             [(''policy_id'', JStr ''RateLimitPolicy''),
              (''tool_name'', JStr ''read_file''),
              (''current_count'', JNum 2),
              (''limit'', JNum 2),
              (''reset_at'', JNum 61000),
              (''reset_in_seconds'', JNum 59)]\<rparr>)"
  by (simp add: rl_validateRequest_def demo_rate_limit_def demo_defs extractToolName_def
        getRateLimitKey_def join_with_def identifier_part_def checkRateLimit_def demo_kv_def
        ceil_div_def demo_num_to_string_def RATE_LIMIT_POLICY_CATEGORY_def Let_def)

lemma run_resource_delete_all:
  "parse demo_platform delete_all_payload
     = Some (JObj [(''method'', JStr ''tools/call''),
                   (''params'', JObj [(''name'', JStr ''delete_all'')])])
   \<and> extractResourceName (JObj [(''method'', JStr ''tools/call''),
                                (''params'', JObj [(''name'', JStr ''delete_all'')])])
       = Inr (Some (JStr ''delete_all''))"
  by (simp add: demo_defs extractResourceName_def)

lemma run_audit_reject:
  "audit_validateRequest demo_platform 0 delete_all_payload demo_audit_ctx
     = Inr (Some \<lparr>allowed = False, modified = False, modifiedPayload = None,
                  reason = Some ''Resource access has been rejected by Audit Policy'',
                  metadata = Some [(''policy_id'', JStr ''AuditPolicy'')]\<rparr>)"
  by (simp add: audit_validateRequest_def run_resource_delete_all demo_audit_ctx_def
        demo_ctx_def server_level_block_def audit_lookup_def rejected_policy_def
        validateWithPolicy_def trim_def is_space_def toLowerCase_def lower_char_def
        audit_block_def AUDIT_POLICY_CATEGORY_def Let_def)


section \<open>Well-formed results\<close>

lemma wf_allow: "result_wf allow_result"
  by (simp add: result_wf_def allow_result_def)

lemma wf_audit_block: "why \<noteq> [] \<Longrightarrow> result_wf (audit_block why)"
  by (simp add: result_wf_def audit_block_def)

lemma wf_conditional: "result_wf (validateConditionalApproval now policy valCtx)"
  by (auto simp: validateConditionalApproval_def wf_allow wf_audit_block split: option.splits)

lemma wf_with_policy: "result_wf (validateWithPolicy now policy valCtx)"
  by (simp add: validateWithPolicy_def Let_def wf_allow wf_audit_block wf_conditional)

lemma wf_server_level: "server_level_block now valCtx = Some r \<Longrightarrow> result_wf r"
  by (auto simp: server_level_block_def Let_def wf_with_policy split: option.splits if_splits)

lemma wf_audit:
  "audit_validateRequest P now payload valCtx = Inr (Some r) \<Longrightarrow> result_wf r"
  by (auto simp: audit_validateRequest_def wf_with_policy wf_server_level
           split: option.splits sum.splits)

lemma wf_decide: "result_wf (decide P tasks resp)"
  by (simp add: decide_def scanner_block_def Let_def result_wf_def allow_result_def
           split: option.splits)

lemma wf_validateRequest:
  "fst (validateRequest P fetch now payload valCtx) = Inr r \<Longrightarrow> result_wf r"
  by (auto simp: validateRequest_def Let_def wf_allow wf_decide wf_audit
           split: if_splits sum.splits option.splits prod.splits)

lemma wf_validateResponse: "result_wf (fst (validateResponse P fetch payload valCtx))"
  by (auto simp: validateResponse_def Let_def wf_allow wf_decide split: prod.splits)

lemma wf_pii:
  "fst (pii_validate E st text rule policy) = Inr r \<Longrightarrow> result_wf r"
  by (auto simp: pii_validate_def Let_def allow_result_def result_wf_def
           split: option.splits if_splits pii_lookup.splits prod.splits)

lemma wf_regex: "result_wf (regex_validate E text rule policy)"
  by (auto simp: regex_validate_def Let_def allow_result_def result_wf_def split: option.splits)

lemma wf_rate_limit:
  "fst (rl_validateRequest P kv now now2 payload valCtx cfg) = Inr (Some r) \<Longrightarrow> result_wf r"
  by (auto simp: rl_validateRequest_def Let_def result_wf_def
           split: option.splits if_splits sum.splits prod.splits)

text \<open>
  Claim C2. Every \<open>ValidationResult\<close> that a validator returns satisfies I1 and I2: when
  \<open>allowed\<close> is false the reason is present and not empty, and when \<open>modified\<close> is true
  the modified payload is present and \<open>allowed\<close> is true. This holds for the
  orchestrator's \<open>validateRequest\<close> and \<open>validateResponse\<close>, the PII validator, the
  regex validator, the rate-limit validator and the audit validator, on every input and
  in every state on which they return a result.
\<close>

theorem validation_results_wellformed:
  "(\<forall>r. fst (validateRequest P fetch now payload valCtx) = Inr r \<longrightarrow> result_wf r)
   \<and> result_wf (fst (validateResponse P fetch payload valCtx))
   \<and> (\<forall>r. fst (pii_validate E st str frule policy) = Inr r \<longrightarrow> result_wf r)
   \<and> result_wf (regex_validate E str frule policy)
   \<and> (\<forall>r. fst (rl_validateRequest P kv now now2 payload valCtx cfg) = Inr (Some r)
          \<longrightarrow> result_wf r)
   \<and> (\<forall>r. audit_validateRequest P now payload valCtx = Inr (Some r) \<longrightarrow> result_wf r)"
proof (intro conjI allI impI)
  fix r assume "fst (validateRequest P fetch now payload valCtx) = Inr r"
  then show "result_wf r" by (rule wf_validateRequest)
next
  show "result_wf (fst (validateResponse P fetch payload valCtx))"
    by (rule wf_validateResponse)
next
  fix r assume "fst (pii_validate E st str frule policy) = Inr r"
  then show "result_wf r" by (rule wf_pii)
next
  show "result_wf (regex_validate E str frule policy)"
    by (rule wf_regex)
next
  fix r assume "fst (rl_validateRequest P kv now now2 payload valCtx cfg) = Inr (Some r)"
  then show "result_wf r" by (rule wf_rate_limit)
next
  fix r assume "audit_validateRequest P now payload valCtx = Inr (Some r)"
  then show "result_wf r" by (rule wf_audit)
qed


theorem validation_results_wellformed_witness:
  "result_wf \<lparr>allowed = False, modified = False, modifiedPayload = None,
              reason = Some ''Blocked by scanner: Toxicity (risk score: 0.875)'',
              metadata = Some [(''policy_id'', JStr ''MCPGuardrails''),
                               (''scanner'', JStr ''Toxicity''), (''risk_score'', JNum 0.875)]\<rparr>
   \<and> result_wf \<lparr>allowed = False, modified = False, modifiedPayload = None,
              reason = Some ''Blocked due to PII detection: ssn'',
              metadata = Some [(''policy_id'', JStr ''MCPGuardrails''),
                               (''rule_type'', JStr ''pii''), (''pii_type'', JStr ''ssn'')]\<rparr>
   \<and> result_wf \<lparr>allowed = False, modified = False, modifiedPayload = None,
           reason = Some (''Rate limit exceeded for tool '' @ [CHR 0x27] @ ''read_file''
              @ [CHR 0x27] @ ''. Try again in 59 seconds.''),
           metadata = Some
             [(''policy_id'', JStr ''RateLimitPolicy''),
              (''tool_name'', JStr ''read_file''),
              (''current_count'', JNum 2),
              (''limit'', JNum 2),
              (''reset_at'', JNum 61000),
              (''reset_in_seconds'', JNum 59)]\<rparr>
   \<and> result_wf \<lparr>allowed = False, modified = False, modifiedPayload = None,
                  reason = Some ''Resource access has been rejected by Audit Policy'',
                  metadata = Some [(''policy_id'', JStr ''AuditPolicy'')]\<rparr>
   \<and> result_wf (fst (validateResponse demo_platform invalid_scanner read_file_payload demo_ctx))
   \<and> result_wf (regex_validate demo_engine ''my secret and SECRET'' secret_redact_rule
                   demo_policy)"
proof -
  have pii: "fst (pii_validate demo_engine pii_initial ''123-45-6789'' ssn_block_rule demo_policy)
     = Inr \<lparr>allowed = False, modified = False, modifiedPayload = None,
              reason = Some ''Blocked due to PII detection: ssn'',
              metadata = Some [(''policy_id'', JStr ''MCPGuardrails''),
                               (''rule_type'', JStr ''pii''), (''pii_type'', JStr ''ssn'')]\<rparr>"
    by (simp add: run_pii_first)
  note inst = validation_results_wellformed[where P = demo_platform and fetch = invalid_scanner
      and now = 0 and payload = read_file_payload and valCtx = demo_ctx
      and E = demo_engine and st = pii_initial and str = "''123-45-6789''"
      and frule = ssn_block_rule and policy = demo_policy]
  note rl = validation_results_wellformed[where P = demo_platform and now = 2000
      and payload = read_file_payload and valCtx = demo_ctx
      and kv = "demo_kv 2" and ?now2.0 = 2001 and cfg = "Some demo_rate_limit"]
  note aud = validation_results_wellformed[where P = demo_platform and now = 0
      and payload = delete_all_payload and valCtx = demo_audit_ctx]
  note rgx = validation_results_wellformed[where E = demo_engine
      and str = "''my secret and SECRET''" and frule = secret_redact_rule
      and policy = demo_policy]
  have w1: "result_wf \<lparr>allowed = False, modified = False, modifiedPayload = None,
              reason = Some ''Blocked by scanner: Toxicity (risk score: 0.875)'',
              metadata = Some [(''policy_id'', JStr ''MCPGuardrails''),
                               (''scanner'', JStr ''Toxicity''), (''risk_score'', JNum 0.875)]\<rparr>"
    by (rule inst[THEN conjunct1, rule_format, OF run_scanner_block])
  have w2: "result_wf (fst (validateResponse demo_platform invalid_scanner read_file_payload
                              demo_ctx))"
    by (rule inst[THEN conjunct2, THEN conjunct1])
  have w3: "result_wf \<lparr>allowed = False, modified = False, modifiedPayload = None,
              reason = Some ''Blocked due to PII detection: ssn'',
              metadata = Some [(''policy_id'', JStr ''MCPGuardrails''),
                               (''rule_type'', JStr ''pii''), (''pii_type'', JStr ''ssn'')]\<rparr>"
    by (rule inst[THEN conjunct2, THEN conjunct2, THEN conjunct1, rule_format, OF pii])
  have w4: "result_wf (regex_validate demo_engine ''my secret and SECRET'' secret_redact_rule
                         demo_policy)"
    by (rule rgx[THEN conjunct2, THEN conjunct2, THEN conjunct2, THEN conjunct1])
  have w5: "result_wf \<lparr>allowed = False, modified = False, modifiedPayload = None,
           reason = Some (''Rate limit exceeded for tool '' @ [CHR 0x27] @ ''read_file''
              @ [CHR 0x27] @ ''. Try again in 59 seconds.''),
           metadata = Some
             [(''policy_id'', JStr ''RateLimitPolicy''),
              (''tool_name'', JStr ''read_file''),
              (''current_count'', JNum 2),
              (''limit'', JNum 2),
              (''reset_at'', JNum 61000),
              (''reset_in_seconds'', JNum 59)]\<rparr>"
    by (rule rl[THEN conjunct2, THEN conjunct2, THEN conjunct2, THEN conjunct2,
                 THEN conjunct1, rule_format, OF run_rate_limit_block])
  have w6: "result_wf \<lparr>allowed = False, modified = False, modifiedPayload = None,
                  reason = Some ''Resource access has been rejected by Audit Policy'',
                  metadata = Some [(''policy_id'', JStr ''AuditPolicy'')]\<rparr>"
    by (rule aud[THEN conjunct2, THEN conjunct2, THEN conjunct2, THEN conjunct2,
                 THEN conjunct2, rule_format, OF run_audit_reject])
  from w1 w3 w5 w6 w2 w4 show ?thesis
    by (intro conjI)
qed


section \<open>Where the code departs from the specification\<close>

lemmas engine_defs = demo_engine_def PII_PATTERNS_def bsl_def literal_at_def is_alnum_def
  toLowerCase_def lower_char_def

text \<open>
  Claim C3 asks that a \<open>redact\<close> regex rule replaces every match. The validator compiles
  the pattern without the \<open>g\<close> flag, so \<open>replace\<close> rewrites the first match only: in
  the text below the pattern \<open>secret\<close> matches at index 3 and again at index 14, and
  the second occurrence is still in the payload that is returned.
\<close>

theorem regex_redact_leaves_later_matches:
  "re_exec demo_engine \<lparr>source = ''secret'', flags = ''i''\<rparr> ''my secret and SECRET'' 0
     = Some (3, 9)
   \<and> re_exec demo_engine \<lparr>source = ''secret'', flags = ''i''\<rparr> ''my secret and SECRET'' 9
     = Some (14, 20)
   \<and> regex_validate demo_engine ''my secret and SECRET'' secret_redact_rule demo_policy
     = \<lparr>allowed = True, modified = True,
        modifiedPayload = Some ''my [REDACTED] and SECRET'',
        reason = None, metadata = None\<rparr>"
proof -
  have m0: "re_exec demo_engine \<lparr>source = ''secret'', flags = ''i''\<rparr>
              ''my secret and SECRET'' 0 = Some (3, 9)"
    by (simp add: engine_defs)
  have m1: "re_exec demo_engine \<lparr>source = ''secret'', flags = ''i''\<rparr>
              ''my secret and SECRET'' 9 = Some (14, 20)"
    by (simp add: engine_defs)
  have v: "re_valid demo_engine ''secret''"
    by (simp add: demo_engine_def is_alnum_def)
  have "regex_validate demo_engine ''my secret and SECRET'' secret_redact_rule demo_policy
     = \<lparr>allowed = True, modified = True,
        modifiedPayload = Some ''my [REDACTED] and SECRET'',
        reason = None, metadata = None\<rparr>"
    using v
    by (simp add: regex_validate_def secret_redact_rule_def test_plain_def replace_first_def
          m0 Let_def)
  with m0 m1 show ?thesis
    by simp
qed

text \<open>
  Claim C10 asks that two successive calls of the PII validator with the same arguments
  give the same result. The regex objects of \<open>PII_PATTERNS\<close> carry the \<open>g\<close> flag and
  are shared by all calls: a blocking call leaves \<open>lastIndex\<close> at the end of the match,
  and the next call, searching from there, finds nothing and allows the same text.
\<close>

theorem pii_validate_second_call_differs:
  "fst (pii_validate demo_engine pii_initial ''123-45-6789'' ssn_block_rule demo_policy)
     = Inr \<lparr>allowed = False, modified = False, modifiedPayload = None,
            reason = Some ''Blocked due to PII detection: ssn'',
            metadata = Some [(''policy_id'', JStr ''MCPGuardrails''),
                             (''rule_type'', JStr ''pii''), (''pii_type'', JStr ''ssn'')]\<rparr>
   \<and> fst (pii_validate demo_engine
            (snd (pii_validate demo_engine pii_initial ''123-45-6789'' ssn_block_rule
                    demo_policy))
            ''123-45-6789'' ssn_block_rule demo_policy)
     = Inr \<lparr>allowed = True, modified = False, modifiedPayload = None, reason = None,
            metadata = None\<rparr>"
  by (simp add: run_pii_first run_pii_second)

section \<open>Audit rejection\<close>

lemma with_policy_block_shape:
  "\<not> allowed (validateWithPolicy now policy valCtx) \<Longrightarrow>
     \<exists>why. why \<noteq> [] \<and> validateWithPolicy now policy valCtx = audit_block why"
  by (auto simp: validateWithPolicy_def validateConditionalApproval_def Let_def
        allow_result_def split: if_splits option.splits)

lemma server_level_block_shape:
  "server_level_block now valCtx = Some b \<Longrightarrow> \<exists>why. why \<noteq> [] \<and> b = audit_block why"
  by (auto simp: server_level_block_def Let_def split: option.splits if_splits
           dest: with_policy_block_shape)

lemma rejected_policy_blocks:
  assumes "remarks policy = Some r" and "toLowerCase (trim r) = ''rejected''"
  shows "validateWithPolicy now policy valCtx
           = audit_block ''Resource access has been rejected by Audit Policy''"
  using assms by (simp add: validateWithPolicy_def Let_def)

lemma server_level_block_cases:
  "server_level_block now valCtx =
     (case mcpServerName valCtx of
        None \<Rightarrow> None
      | Some srv \<Rightarrow>
          if srv = [] then None
          else (case audit_lookup (auditPolicies valCtx) (toLowerCase srv) of
                  None \<Rightarrow> None
                | Some serverPolicy \<Rightarrow>
                    if allowed (validateWithPolicy now serverPolicy valCtx) then None
                    else Some (validateWithPolicy now serverPolicy valCtx)))"
  by (simp add: server_level_block_def Let_def split: option.splits)

text \<open>
  Claim C6, as amended. When audit rules are enabled and the resource name extracted
  from the request has an audit policy whose remarks, trimmed and lowercased, are
  \<open>rejected\<close>, the audit validator returns a block with
  \<open>metadata.policy_id = "AuditPolicy"\<close>, and the orchestrator returns that very block at
  once: the extractor does not run and no scanner is called. When no server-level
  policy blocks, the block is the one with the reason
  \<open>"Resource access has been rejected by Audit Policy"\<close>. When \<open>mcpServerName\<close> is set,
  the table has a policy under its lowercased name and that policy blocks, the block
  returned is the result of that server-level policy, with its own reason.
\<close>

theorem audit_reject_wins:
  assumes "payload \<noteq> []"
    and "hasAuditRules valCtx = Some True"
    and "auditPolicies valCtx = Some tab"
    and "parse P payload = Some req"
    and "extractResourceName req = Inr (Some res)"
    and "tab (js_to_string P res) = Some policy"
    and "remarks policy = Some r"
    and "toLowerCase (trim r) = ''rejected''"
  shows "audit_validateRequest P now payload valCtx
           = Inr (Some (case server_level_block now valCtx of
                None \<Rightarrow> \<lparr>allowed = False, modified = False, modifiedPayload = None,
                   reason = Some ''Resource access has been rejected by Audit Policy'',
                   metadata = Some [(''policy_id'', JStr ''AuditPolicy'')]\<rparr>
              | Some b \<Rightarrow> b))
         \<and> validateRequest P fetch now payload valCtx
           = (Inr (case server_level_block now valCtx of
                None \<Rightarrow> \<lparr>allowed = False, modified = False, modifiedPayload = None,
                   reason = Some ''Resource access has been rejected by Audit Policy'',
                   metadata = Some [(''policy_id'', JStr ''AuditPolicy'')]\<rparr>
              | Some b \<Rightarrow> b), [])
         \<and> \<not> allowed (case server_level_block now valCtx of
                None \<Rightarrow> \<lparr>allowed = False, modified = False, modifiedPayload = None,
                   reason = Some ''Resource access has been rejected by Audit Policy'',
                   metadata = Some [(''policy_id'', JStr ''AuditPolicy'')]\<rparr>
              | Some b \<Rightarrow> b)
         \<and> metadata (case server_level_block now valCtx of
                None \<Rightarrow> \<lparr>allowed = False, modified = False, modifiedPayload = None,
                   reason = Some ''Resource access has been rejected by Audit Policy'',
                   metadata = Some [(''policy_id'', JStr ''AuditPolicy'')]\<rparr>
              | Some b \<Rightarrow> b) = Some [(''policy_id'', JStr ''AuditPolicy'')]
         \<and> (\<exists>why. why \<noteq> [] \<and> reason (case server_level_block now valCtx of
                None \<Rightarrow> \<lparr>allowed = False, modified = False, modifiedPayload = None,
                   reason = Some ''Resource access has been rejected by Audit Policy'',
                   metadata = Some [(''policy_id'', JStr ''AuditPolicy'')]\<rparr>
              | Some b \<Rightarrow> b) = Some why)
         \<and> server_level_block now valCtx =
             (case mcpServerName valCtx of
                None \<Rightarrow> None
              | Some srv \<Rightarrow>
                  if srv = [] then None
                  else (case audit_lookup (auditPolicies valCtx) (toLowerCase srv) of
                          None \<Rightarrow> None
                        | Some serverPolicy \<Rightarrow>
                            if allowed (validateWithPolicy now serverPolicy valCtx) then None
                            else Some (validateWithPolicy now serverPolicy valCtx)))"
proof -
  have look: "audit_lookup (auditPolicies valCtx) (js_to_string P res) = Some policy"
    using assms(3,6) by (simp add: audit_lookup_def)
  have rej: "validateWithPolicy now policy valCtx
               = audit_block ''Resource access has been rejected by Audit Policy''"
    by (rule rejected_policy_blocks[OF assms(7,8)])
  have aud: "audit_validateRequest P now payload valCtx = Inr (Some (case server_level_block now valCtx of
                None \<Rightarrow> \<lparr>allowed = False, modified = False, modifiedPayload = None,
                   reason = Some ''Resource access has been rejected by Audit Policy'',
                   metadata = Some [(''policy_id'', JStr ''AuditPolicy'')]\<rparr>
              | Some b \<Rightarrow> b))"
    using assms(4,5) look rej
    by (simp add: audit_validateRequest_def audit_block_def AUDIT_POLICY_CATEGORY_def
          split: option.splits)
  have blocked: "\<not> allowed (case server_level_block now valCtx of
                None \<Rightarrow> \<lparr>allowed = False, modified = False, modifiedPayload = None,
                   reason = Some ''Resource access has been rejected by Audit Policy'',
                   metadata = Some [(''policy_id'', JStr ''AuditPolicy'')]\<rparr>
              | Some b \<Rightarrow> b)"
    using server_level_block_shape[of now valCtx]
    by (auto simp: audit_block_def split: option.splits)
  have orch: "validateRequest P fetch now payload valCtx = (Inr (case server_level_block now valCtx of
                None \<Rightarrow> \<lparr>allowed = False, modified = False, modifiedPayload = None,
                   reason = Some ''Resource access has been rejected by Audit Policy'',
                   metadata = Some [(''policy_id'', JStr ''AuditPolicy'')]\<rparr>
              | Some b \<Rightarrow> b), [])"
    using assms(1,2,3) blocked by (simp add: validateRequest_def aud)
  have md: "metadata (case server_level_block now valCtx of
                None \<Rightarrow> \<lparr>allowed = False, modified = False, modifiedPayload = None,
                   reason = Some ''Resource access has been rejected by Audit Policy'',
                   metadata = Some [(''policy_id'', JStr ''AuditPolicy'')]\<rparr>
              | Some b \<Rightarrow> b) = Some [(''policy_id'', JStr ''AuditPolicy'')]"
    using server_level_block_shape[of now valCtx]
    by (auto simp: audit_block_def AUDIT_POLICY_CATEGORY_def split: option.splits)
  have why: "\<exists>why. why \<noteq> [] \<and> reason (case server_level_block now valCtx of
                None \<Rightarrow> \<lparr>allowed = False, modified = False, modifiedPayload = None,
                   reason = Some ''Resource access has been rejected by Audit Policy'',
                   metadata = Some [(''policy_id'', JStr ''AuditPolicy'')]\<rparr>
              | Some b \<Rightarrow> b) = Some why"
    using server_level_block_shape[of now valCtx]
    by (auto simp: audit_block_def split: option.splits)
  from aud orch blocked md why server_level_block_cases show ?thesis
    by (intro conjI)
qed

theorem audit_reject_wins_witness:
  "validateRequest demo_platform invalid_scanner 0 delete_all_payload padded_audit_ctx
     = (Inr \<lparr>allowed = False, modified = False, modifiedPayload = None,
             reason = Some ''Resource access has been rejected by Audit Policy'',
             metadata = Some [(''policy_id'', JStr ''AuditPolicy'')]\<rparr>, [])
   \<and> validateRequest demo_platform invalid_scanner 2000000 delete_all_payload server_audit_ctx
     = (Inr (validateWithPolicy 2000000 expired_server_policy server_audit_ctx), [])
   \<and> validateWithPolicy 2000000 expired_server_policy server_audit_ctx
     = \<lparr>allowed = False, modified = False, modifiedPayload = None,
        reason = Some ''Conditional approval has expired'',
        metadata = Some [(''policy_id'', JStr ''AuditPolicy'')]\<rparr>"
proof -
  have h1: "delete_all_payload \<noteq> []"
    by (simp add: delete_all_payload_def)
  have h4: "parse demo_platform delete_all_payload
     = Some (JObj [(''method'', JStr ''tools/call''),
                   (''params'', JObj [(''name'', JStr ''delete_all'')])])"
    by (simp add: run_resource_delete_all)
  have h5: "extractResourceName (JObj [(''method'', JStr ''tools/call''),
                                (''params'', JObj [(''name'', JStr ''delete_all'')])])
       = Inr (Some (JStr ''delete_all''))"
    by (simp add: run_resource_delete_all)
  have a2: "hasAuditRules padded_audit_ctx = Some True"
    by (simp add: padded_audit_ctx_def)
  have a3: "auditPolicies padded_audit_ctx = Some [''delete_all'' \<mapsto> padded_rejected_policy]"
    by (simp add: padded_audit_ctx_def)
  have a6: "[''delete_all'' \<mapsto> padded_rejected_policy]
              (js_to_string demo_platform (JStr ''delete_all'')) = Some padded_rejected_policy"
    by simp
  have a7: "remarks padded_rejected_policy = Some ('' REJECTED'' @ [CHR 0xA0, CHR 0x0A])"
    by (simp add: padded_rejected_policy_def)
  have a8: "toLowerCase (trim ('' REJECTED'' @ [CHR 0xA0, CHR 0x0A])) = ''rejected''"
    by (simp add: trim_def is_space_def toLowerCase_def lower_char_def)
  have anone: "server_level_block 0 padded_audit_ctx = None"
    by (simp add: server_level_block_def padded_audit_ctx_def demo_ctx_def)
  have first: "validateRequest demo_platform invalid_scanner 0 delete_all_payload
                 padded_audit_ctx
     = (Inr \<lparr>allowed = False, modified = False, modifiedPayload = None,
             reason = Some ''Resource access has been rejected by Audit Policy'',
             metadata = Some [(''policy_id'', JStr ''AuditPolicy'')]\<rparr>, [])"
    using audit_reject_wins[OF h1 a2 a3 h4 h5 a6 a7 a8, of 0 invalid_scanner,
            THEN conjunct2, THEN conjunct1]
    by (simp add: anone)
  have b2: "hasAuditRules server_audit_ctx = Some True"
    by (simp add: server_audit_ctx_def)
  have b3: "auditPolicies server_audit_ctx
              = Some [''delete_all'' \<mapsto> rejected_policy, ''github'' \<mapsto> expired_server_policy]"
    by (simp add: server_audit_ctx_def)
  have b6: "[''delete_all'' \<mapsto> rejected_policy, ''github'' \<mapsto> expired_server_policy]
              (js_to_string demo_platform (JStr ''delete_all'')) = Some rejected_policy"
    by simp
  have b7: "remarks rejected_policy = Some ''Rejected''"
    by (simp add: rejected_policy_def)
  have b8: "toLowerCase (trim ''Rejected'') = ''rejected''"
    by (simp add: trim_def is_space_def toLowerCase_def lower_char_def)
  have exp: "validateWithPolicy 2000000 expired_server_policy server_audit_ctx
     = \<lparr>allowed = False, modified = False, modifiedPayload = None,
        reason = Some ''Conditional approval has expired'',
        metadata = Some [(''policy_id'', JStr ''AuditPolicy'')]\<rparr>"
    by (simp add: expired_server_policy_def validateWithPolicy_def trim_def is_space_def
          toLowerCase_def lower_char_def validateConditionalApproval_def audit_block_def
          AUDIT_POLICY_CATEGORY_def Let_def)
  have low: "toLowerCase ''GitHub'' = ''github''"
    by (simp add: toLowerCase_def lower_char_def)
  have lk: "audit_lookup (auditPolicies server_audit_ctx) ''github'' = Some expired_server_policy"
    by (simp add: b3 audit_lookup_def)
  have srvname: "mcpServerName server_audit_ctx = Some ''GitHub''"
    by (simp add: server_audit_ctx_def)
  note inst = audit_reject_wins[OF h1 b2 b3 h4 h5 b6 b7 b8, of 2000000 invalid_scanner]
  have bsome: "server_level_block 2000000 server_audit_ctx
                 = Some (validateWithPolicy 2000000 expired_server_policy server_audit_ctx)"
    using inst[THEN conjunct2, THEN conjunct2, THEN conjunct2, THEN conjunct2, THEN conjunct2]
    by (simp add: srvname low lk exp)
  have second: "validateRequest demo_platform invalid_scanner 2000000 delete_all_payload
                  server_audit_ctx
     = (Inr (validateWithPolicy 2000000 expired_server_policy server_audit_ctx), [])"
    using inst[THEN conjunct2, THEN conjunct1]
    by (simp add: bsome)
  from first second exp show ?thesis
    by (intro conjI)
qed

text \<open>
  Claim C6 as first stated fails in two ways. With audit rules enabled, the tool
  \<open>delete_all\<close> rejected, but a server-level policy for \<open>mcpServerName\<close> whose
  conditional approval has expired, the block carries the server-level reason. And when
  the context carries the audit table but \<open>hasAuditRules\<close> is false, the orchestrator
  does not consult the audit validator: the extractor runs and the request is allowed.
\<close>

theorem audit_reject_reason_counterexample:
  "hasAuditRules server_audit_ctx = Some True
   \<and> audit_lookup (auditPolicies server_audit_ctx) ''delete_all'' = Some rejected_policy
   \<and> toLowerCase (trim (the (remarks rejected_policy))) = ''rejected''
   \<and> fst (validateRequest demo_platform invalid_scanner 2000000 delete_all_payload
            server_audit_ctx)
       = Inr \<lparr>allowed = False, modified = False, modifiedPayload = None,
              reason = Some ''Conditional approval has expired'',
              metadata = Some [(''policy_id'', JStr ''AuditPolicy'')]\<rparr>
   \<and> ''Conditional approval has expired''
       \<noteq> ''Resource access has been rejected by Audit Policy''
   \<and> audit_lookup (auditPolicies unflagged_audit_ctx) ''delete_all'' = Some rejected_policy
   \<and> validateRequest demo_platform invalid_scanner 0 delete_all_payload unflagged_audit_ctx
       = (Inr \<lparr>allowed = True, modified = False, modifiedPayload = None, reason = None,
               metadata = None\<rparr>,
          [Extracted (''Tool: delete_all'' @ nl @ ''Arguments:'' @ nl @ ''{}'' @ nl
                      @ ''Context:'' @ nl @ ''origin: mcp_call'')])"
proof -
  have srv: "server_level_block 2000000 server_audit_ctx
               = Some (audit_block ''Conditional approval has expired'')"
    by (simp add: server_level_block_def server_audit_ctx_def demo_ctx_def audit_lookup_def
          toLowerCase_def lower_char_def expired_server_policy_def validateWithPolicy_def
          trim_def is_space_def validateConditionalApproval_def audit_block_def Let_def)
  have aud: "audit_validateRequest demo_platform 2000000 delete_all_payload server_audit_ctx
               = Inr (Some (audit_block ''Conditional approval has expired''))"
    by (simp add: audit_validateRequest_def run_resource_delete_all srv)
  have ne: "delete_all_payload \<noteq> []"
    by (simp add: delete_all_payload_def)
  have on: "hasAuditRules server_audit_ctx = Some True"
           "auditPolicies server_audit_ctx \<noteq> None"
    by (simp_all add: server_audit_ctx_def)
  have res: "fst (validateRequest demo_platform invalid_scanner 2000000 delete_all_payload
                    server_audit_ctx)
       = Inr \<lparr>allowed = False, modified = False, modifiedPayload = None,
              reason = Some ''Conditional approval has expired'',
              metadata = Some [(''policy_id'', JStr ''AuditPolicy'')]\<rparr>"
    using ne on
    by (simp add: validateRequest_def aud audit_block_def AUDIT_POLICY_CATEGORY_def)
  have pre: "hasAuditRules server_audit_ctx = Some True
     \<and> audit_lookup (auditPolicies server_audit_ctx) ''delete_all'' = Some rejected_policy
     \<and> toLowerCase (trim (the (remarks rejected_policy))) = ''rejected''"
    by (simp add: server_audit_ctx_def audit_lookup_def rejected_policy_def trim_def
          is_space_def toLowerCase_def lower_char_def)
  have look: "audit_lookup (auditPolicies unflagged_audit_ctx) ''delete_all''
                = Some rejected_policy"
    by (simp add: unflagged_audit_ctx_def demo_audit_ctx_def audit_lookup_def)
  have ex: "extractUserControlledFields demo_platform delete_all_payload
              = ''Tool: delete_all'' @ nl @ ''Arguments:'' @ nl @ ''{}'' @ nl
                @ ''Context:'' @ nl @ ''origin: mcp_call''"
    by (simp add: extractUserControlledFields_def demo_defs isSafeMCPMethod_def
          SAFE_MCP_METHODS_def extractFromParams_def Let_def)
  have off: "hasAuditRules unflagged_audit_ctx = Some False"
            "policies unflagged_audit_ctx = Some []"
    by (simp_all add: unflagged_audit_ctx_def)
  have run: "validateRequest demo_platform invalid_scanner 0 delete_all_payload
               unflagged_audit_ctx
       = (Inr \<lparr>allowed = True, modified = False, modifiedPayload = None, reason = None,
               metadata = None\<rparr>,
          [Extracted (''Tool: delete_all'' @ nl @ ''Arguments:'' @ nl @ ''{}'' @ nl
                      @ ''Context:'' @ nl @ ''origin: mcp_call'')])"
    using ne
    by (simp add: validateRequest_def off ex list_or_empty_def collect_tasks_def
          allow_result_def Let_def)
  show ?thesis
    using pre res look run by simp
qed


section \<open>Metadata auditor\<close>

lemma str_or_same: "str_or (Some x) [] = x"
  by (simp add: str_or_def)

lemma str_or_nonempty: "x \<noteq> [] \<Longrightarrow> str_or (Some x) d = x"
  by (simp add: str_or_def)

lemma str_or_default: "d \<noteq> [] \<Longrightarrow> str_or x d \<noteq> []"
  by (simp add: str_or_def split: option.splits)

lemma str_or_twice: "d \<noteq> [] \<Longrightarrow> str_or (Some (str_or x d)) e = str_or x d"
  by (simp add: str_or_def split: option.splits)

text \<open>
  The constant used for the literal \<open>0.7\<close> is a double (an integer below \<open>2^53\<close> over
  \<open>2^53\<close>) and lies within half a unit in the last place of \<open>0.7\<close>.
\<close>

lemma double_0_7_nearest:
  "double_0_7 = 6305039478318694 / 2 ^ 53 \<and> \<bar>0.7 - double_0_7\<bar> \<le> 1 / 2 ^ 54"
  by (simp add: double_0_7_def)

lemma reportThreat_event:
  assumes "endp \<noteq> []"
  shows "reportThreat P clock
           \<lparr>allowed = False, modified = False, modifiedPayload = None, reason = why,
            metadata = Some [(''policy_id'', JStr ''MCPMaliciousComponent''),
                             (''validation'', resp)]\<rparr>
           (valCtx\<lparr>endpoint := Some endp, ctx_responsePayload := Some body\<rparr>) token
         = [\<lparr>report_url = ''https://tbs.akto.io/api/threat_detection/record_malicious_event'',
             report_authorization = ''Bearer '' @ token,
             maliciousEvent =
              \<lparr>actor = str_or (ip valCtx) ''0.0.0.0'',
               filterId = ''MCPMaliciousComponent'',
               detectedAt = num_to_string P (of_int (clock div 1000)),
               latestApiIp = str_or (ip valCtx) ''0.0.0.0'',
               latestApiEndpoint = endp,
               latestApiMethod = str_or (http_method valCtx) ''POST'',
               latestApiCollectionId = clock div 1000,
               latestApiPayload = stringify P (JObj
                 [(''method'', JStr (str_or (http_method valCtx) ''POST'')),
                  (''requestPayload'', JStr (str_or (ctx_requestPayload valCtx) [])),
                  (''responsePayload'', JStr body),
                  (''ip'', JStr (str_or (ip valCtx) ''0.0.0.0'')),
                  (''destIp'', JStr (str_or (ip valCtx) ''0.0.0.0'')),
                  (''source'', JStr ''OTHER''),
                  (''type'', JStr ''http''),
                  (''akto_vxlan_id'', JStr []),
                  (''path'', JStr endp),
                  (''requestHeaders'', JStr (stringify P
                      (headers_json (list_or_empty (requestHeaders valCtx))))),
                  (''responseHeaders'', JStr (stringify P
                      (headers_json (list_or_empty (responseHeaders valCtx))))),
                  (''time'', JNum 0),
                  (''akto_account_id'', JStr []),
                  (''statusCode'', JNum (of_int (case statusCode valCtx of
                                                  None \<Rightarrow> 200
                                                | Some c \<Rightarrow> if c = 0 then 200 else c))),
                  (''status'', JStr ''OK'')]),
               eventType = ''EVENT_TYPE_SINGLE'',
               category = ''MCPMaliciousComponent'',
               subCategory = ''MCPMaliciousComponent'',
               severity = ''CRITICAL'',
               event_kind = ''Rule-Based'',
               event_metadata = [(''countryCode'', JStr ''IN'')]\<rparr>\<rparr>]"
proof -
  have a: "str_or (ip valCtx) ''0.0.0.0'' \<noteq> []" and m: "str_or (http_method valCtx) ''POST'' \<noteq> []"
    by (simp_all add: str_or_default)
  show ?thesis
    using assms a m
    by (simp add: reportThreat_def buildMaliciousEvent_def buildAPIPayload_def Let_def
          THREAT_DETECTION_API_URL_def str_or_same str_or_nonempty
          split: option.splits)
qed

text \<open>
  Claim C9, as amended. For a tool descriptor with a name whose LLM reply parses to a
  validation response, the metadata auditor issues exactly one threat report when
  \<open>maliciousMatchScore > 0.75\<close> or \<open>toolNameDescriptionMatchScore < 0.7\<close> (as doubles),
  and none otherwise. The event that is posted has \<open>MCPMaliciousComponent\<close>, the
  \<open>policy_id\<close> of the reported validation result, as its filter id, category and
  subcategory; its own metadata holds the country code only. Its endpoint, and the path
  inside its payload, is the original endpoint followed by \<open>/tools/list/\<close> and the tool
  name, and the response payload inside its payload is the JSON of a result whose tool
  list holds that descriptor alone.
\<close>

theorem metadata_threshold_report:
  assumes "get_prop tool ''name'' = Some name" and "truthy (Some name)"
    and "llm tool = Some content" and "parse P (cleanJSON content) = Some resp"
    and "resp \<noteq> JNull"
  shows "validateTool P llm clock token tool valCtx =
           Inr (if js_gt P (get_prop resp ''maliciousMatchScore'') 0.75
              \<or> js_lt P (get_prop resp ''toolNameDescriptionMatchScore'') double_0_7
                then [\<lparr>report_url = ''https://tbs.akto.io/api/threat_detection/record_malicious_event'',
             report_authorization = ''Bearer '' @ token,
             maliciousEvent =
              \<lparr>actor = str_or (ip valCtx) ''0.0.0.0'',
               filterId = ''MCPMaliciousComponent'',
               detectedAt = num_to_string P (of_int (clock div 1000)),
               latestApiIp = str_or (ip valCtx) ''0.0.0.0'',
               latestApiEndpoint = ((case endpoint valCtx of None \<Rightarrow> ''undefined'' | Some e \<Rightarrow> e)
                     @ ''/tools/list/'' @ js_to_string P name),
               latestApiMethod = str_or (http_method valCtx) ''POST'',
               latestApiCollectionId = clock div 1000,
               latestApiPayload = stringify P (JObj
                 [(''method'', JStr (str_or (http_method valCtx) ''POST'')),
                  (''requestPayload'', JStr (str_or (ctx_requestPayload valCtx) [])),
                  (''responsePayload'', JStr (stringify P
                      (JObj [(''result'', JObj [(''tools'', JArr [tool])])]))),
                  (''ip'', JStr (str_or (ip valCtx) ''0.0.0.0'')),
                  (''destIp'', JStr (str_or (ip valCtx) ''0.0.0.0'')),
                  (''source'', JStr ''OTHER''),
                  (''type'', JStr ''http''),
                  (''akto_vxlan_id'', JStr []),
                  (''path'', JStr ((case endpoint valCtx of None \<Rightarrow> ''undefined'' | Some e \<Rightarrow> e)
                     @ ''/tools/list/'' @ js_to_string P name)),
                  (''requestHeaders'', JStr (stringify P
                      (headers_json (list_or_empty (requestHeaders valCtx))))),
                  (''responseHeaders'', JStr (stringify P
                      (headers_json (list_or_empty (responseHeaders valCtx))))),
                  (''time'', JNum 0),
                  (''akto_account_id'', JStr []),
                  (''statusCode'', JNum (of_int (case statusCode valCtx of
                                                  None \<Rightarrow> 200
                                                | Some c \<Rightarrow> if c = 0 then 200 else c))),
                  (''status'', JStr ''OK'')]),
               eventType = ''EVENT_TYPE_SINGLE'',
               category = ''MCPMaliciousComponent'',
               subCategory = ''MCPMaliciousComponent'',
               severity = ''CRITICAL'',
               event_kind = ''Rule-Based'',
               event_metadata = [(''countryCode'', JStr ''IN'')]\<rparr>\<rparr>]
                else [])
         \<and> (\<forall>a b. get_prop resp ''maliciousMatchScore'' = Some (JNum a)
                  \<and> get_prop resp ''toolNameDescriptionMatchScore'' = Some (JNum b)
               \<longrightarrow> (js_gt P (get_prop resp ''maliciousMatchScore'') 0.75
              \<or> js_lt P (get_prop resp ''toolNameDescriptionMatchScore'') double_0_7)
                     = (a > 0.75 \<or> b < double_0_7))"
proof -
  have nm: "prop_of tool ''name'' = Inr (Some name)"
    using assms(1) by (cases tool) auto
  have t: "tpl P (get_prop tool ''name'') = js_to_string P name"
    by (simp add: tpl_def assms(1))
  have run: "validateTool P llm clock token tool valCtx =
               Inr (if js_gt P (get_prop resp ''maliciousMatchScore'') 0.75
              \<or> js_lt P (get_prop resp ''toolNameDescriptionMatchScore'') double_0_7
                    then reportToolThreat P clock token tool resp valCtx else [])"
    using assms(2-5) by (simp add: validateTool_def nm)
  have ne: "((case endpoint valCtx of None \<Rightarrow> ''undefined'' | Some e \<Rightarrow> e)
                     @ ''/tools/list/'' @ js_to_string P name) \<noteq> []"
    by simp
  have post: "reportToolThreat P clock token tool resp valCtx
     = [\<lparr>report_url = ''https://tbs.akto.io/api/threat_detection/record_malicious_event'',
             report_authorization = ''Bearer '' @ token,
             maliciousEvent =
              \<lparr>actor = str_or (ip valCtx) ''0.0.0.0'',
               filterId = ''MCPMaliciousComponent'',
               detectedAt = num_to_string P (of_int (clock div 1000)),
               latestApiIp = str_or (ip valCtx) ''0.0.0.0'',
               latestApiEndpoint = ((case endpoint valCtx of None \<Rightarrow> ''undefined'' | Some e \<Rightarrow> e)
                     @ ''/tools/list/'' @ js_to_string P name),
               latestApiMethod = str_or (http_method valCtx) ''POST'',
               latestApiCollectionId = clock div 1000,
               latestApiPayload = stringify P (JObj
                 [(''method'', JStr (str_or (http_method valCtx) ''POST'')),
                  (''requestPayload'', JStr (str_or (ctx_requestPayload valCtx) [])),
                  (''responsePayload'', JStr (stringify P
                      (JObj [(''result'', JObj [(''tools'', JArr [tool])])]))),
                  (''ip'', JStr (str_or (ip valCtx) ''0.0.0.0'')),
                  (''destIp'', JStr (str_or (ip valCtx) ''0.0.0.0'')),
                  (''source'', JStr ''OTHER''),
                  (''type'', JStr ''http''),
                  (''akto_vxlan_id'', JStr []),
                  (''path'', JStr ((case endpoint valCtx of None \<Rightarrow> ''undefined'' | Some e \<Rightarrow> e)
                     @ ''/tools/list/'' @ js_to_string P name)),
                  (''requestHeaders'', JStr (stringify P
                      (headers_json (list_or_empty (requestHeaders valCtx))))),
                  (''responseHeaders'', JStr (stringify P
                      (headers_json (list_or_empty (responseHeaders valCtx))))),
                  (''time'', JNum 0),
                  (''akto_account_id'', JStr []),
                  (''statusCode'', JNum (of_int (case statusCode valCtx of
                                                  None \<Rightarrow> 200
                                                | Some c \<Rightarrow> if c = 0 then 200 else c))),
                  (''status'', JStr ''OK'')]),
               eventType = ''EVENT_TYPE_SINGLE'',
               category = ''MCPMaliciousComponent'',
               subCategory = ''MCPMaliciousComponent'',
               severity = ''CRITICAL'',
               event_kind = ''Rule-Based'',
               event_metadata = [(''countryCode'', JStr ''IN'')]\<rparr>\<rparr>]"
    unfolding reportToolThreat_def Let_def t
    by (rule reportThreat_event[OF ne])
  have nums: "\<forall>a b. get_prop resp ''maliciousMatchScore'' = Some (JNum a)
                  \<and> get_prop resp ''toolNameDescriptionMatchScore'' = Some (JNum b)
               \<longrightarrow> (js_gt P (get_prop resp ''maliciousMatchScore'') 0.75
              \<or> js_lt P (get_prop resp ''toolNameDescriptionMatchScore'') double_0_7)
                     = (a > 0.75 \<or> b < double_0_7)"
    by (simp add: js_gt_def js_lt_def)
  show ?thesis
    using nums by (simp only: run post simp_thms)
qed

theorem metadata_threshold_report_witness:
  "validateTool demo_platform verbose_llm 5000 ''tok'' weather_tool demo_ctx
     = Inr [\<lparr>report_url = ''https://tbs.akto.io/api/threat_detection/record_malicious_event'',
             report_authorization = ''Bearer tok'',
             maliciousEvent =
              \<lparr>actor = ''10.0.0.5'',
               filterId = ''MCPMaliciousComponent'',
               detectedAt = ''5'',
               latestApiIp = ''10.0.0.5'',
               latestApiEndpoint = ''/mcp/tools/list/get_weather'',
               latestApiMethod = ''POST'',
               latestApiCollectionId = 5,
               latestApiPayload = demo_stringify (JObj
                 [(''method'', JStr ''POST''),
                  (''requestPayload'', JStr []),
                  (''responsePayload'', JStr weather_response_json),
                  (''ip'', JStr ''10.0.0.5''),
                  (''destIp'', JStr ''10.0.0.5''),
                  (''source'', JStr ''OTHER''),
                  (''type'', JStr ''http''),
                  (''akto_vxlan_id'', JStr []),
                  (''path'', JStr ''/mcp/tools/list/get_weather''),
                  (''requestHeaders'', JStr ''{}''),
                  (''responseHeaders'', JStr ''{}''),
                  (''time'', JNum 0),
                  (''akto_account_id'', JStr []),
                  (''statusCode'', JNum 200),
                  (''status'', JStr ''OK'')]),
               eventType = ''EVENT_TYPE_SINGLE'',
               category = ''MCPMaliciousComponent'',
               subCategory = ''MCPMaliciousComponent'',
               severity = ''CRITICAL'',
               event_kind = ''Rule-Based'',
               event_metadata = [(''countryCode'', JStr ''IN'')]\<rparr>\<rparr>]
   \<and> stringify demo_platform (JObj [(''result'', JObj [(''tools'', JArr [weather_tool])])])
       = weather_response_json"
proof -
  have h1: "get_prop weather_tool ''name'' = Some (JStr ''get_weather'')"
    by (simp add: weather_tool_def)
  have h2: "truthy (Some (JStr ''get_weather''))"
    by simp
  have h3: "verbose_llm weather_tool = Some (''Verdict: '' @ llm_verdict @ '' (end)'')"
    by (simp add: verbose_llm_def)
  have clean: "cleanJSON (''Verdict: '' @ llm_verdict @ '' (end)'') = llm_verdict"
    by (simp add: cleanJSON_def trim_def is_space_def last_index_of_def llm_verdict_def)
  have verdict: "parse demo_platform llm_verdict = Some (JObj [(''isMalicious'', JBool True), (''maliciousMatchScore'', JNum 0.875),
              (''toolNameDescriptionMatchScore'', JNum 0.25), (''reason'', JStr ''mismatch'')])"
    by (simp add: demo_defs)
  have h4: "parse demo_platform (cleanJSON (''Verdict: '' @ llm_verdict @ '' (end)''))
              = Some (JObj [(''isMalicious'', JBool True), (''maliciousMatchScore'', JNum 0.875),
              (''toolNameDescriptionMatchScore'', JNum 0.25), (''reason'', JStr ''mismatch'')])"
    by (simp only: clean verdict)
  have h5: "JObj [(''isMalicious'', JBool True), (''maliciousMatchScore'', JNum 0.875),
              (''toolNameDescriptionMatchScore'', JNum 0.25), (''reason'', JStr ''mismatch'')] \<noteq> JNull"
    by simp
  have cond: "js_gt demo_platform (get_prop (JObj [(''isMalicious'', JBool True), (''maliciousMatchScore'', JNum 0.875),
              (''toolNameDescriptionMatchScore'', JNum 0.25), (''reason'', JStr ''mismatch'')]) ''maliciousMatchScore'') 0.75"
    by (simp add: js_gt_def)
  have body: "stringify demo_platform
                (JObj [(''result'', JObj [(''tools'', JArr [weather_tool])])])
              = weather_response_json"
    by (simp add: demo_platform_def weather_tool_def weather_response_json_def
          quote_string_def escape_char_def dq_def join_with_def)
  have hdr: "stringify demo_platform (headers_json []) = ''{}''"
    by (simp add: demo_platform_def headers_json_def join_with_def)
  note inst = metadata_threshold_report[where llm = verbose_llm and tool = weather_tool
      and P = demo_platform and clock = 5000 and token = "''tok''" and valCtx = demo_ctx,
      OF h1 h2 h3 h4 h5, THEN conjunct1]
  have "validateTool demo_platform verbose_llm 5000 ''tok'' weather_tool demo_ctx
     = Inr [\<lparr>report_url = ''https://tbs.akto.io/api/threat_detection/record_malicious_event'',
             report_authorization = ''Bearer tok'',
             maliciousEvent =
              \<lparr>actor = ''10.0.0.5'',
               filterId = ''MCPMaliciousComponent'',
               detectedAt = ''5'',
               latestApiIp = ''10.0.0.5'',
               latestApiEndpoint = ''/mcp/tools/list/get_weather'',
               latestApiMethod = ''POST'',
               latestApiCollectionId = 5,
               latestApiPayload = demo_stringify (JObj
                 [(''method'', JStr ''POST''),
                  (''requestPayload'', JStr []),
                  (''responsePayload'', JStr weather_response_json),
                  (''ip'', JStr ''10.0.0.5''),
                  (''destIp'', JStr ''10.0.0.5''),
                  (''source'', JStr ''OTHER''),
                  (''type'', JStr ''http''),
                  (''akto_vxlan_id'', JStr []),
                  (''path'', JStr ''/mcp/tools/list/get_weather''),
                  (''requestHeaders'', JStr ''{}''),
                  (''responseHeaders'', JStr ''{}''),
                  (''time'', JNum 0),
                  (''akto_account_id'', JStr []),
                  (''statusCode'', JNum 200),
                  (''status'', JStr ''OK'')]),
               eventType = ''EVENT_TYPE_SINGLE'',
               category = ''MCPMaliciousComponent'',
               subCategory = ''MCPMaliciousComponent'',
               severity = ''CRITICAL'',
               event_kind = ''Rule-Based'',
               event_metadata = [(''countryCode'', JStr ''IN'')]\<rparr>\<rparr>]"
    using inst cond
    by (simp add: body hdr)
       (simp add: demo_ctx_def str_or_def list_or_empty_def demo_platform_def
          demo_num_to_string_def hdr[unfolded demo_platform_def, simplified])
  with body show ?thesis
    by (intro conjI)
qed

text \<open>
  Claim C9 as first stated fails on the report's metadata: for the descriptor of the
  example, whose malicious score is above the threshold, one report is posted and the
  metadata of its event is the country code alone, with no \<open>policy_id\<close>.
\<close>

theorem metadata_policy_id_counterexample:
  "js_gt demo_platform
     (get_prop (the (parse demo_platform (cleanJSON (the (verbose_llm weather_tool)))))
        ''maliciousMatchScore'') 0.75
   \<and> map (event_metadata \<circ> maliciousEvent)
         (projr (validateTool demo_platform verbose_llm 5000 ''tok'' weather_tool demo_ctx))
       = [[(''countryCode'', JStr ''IN'')]]
   \<and> map_of [(''countryCode'', JStr ''IN'')] ''policy_id'' = None"
proof -
  have clean: "cleanJSON (the (verbose_llm weather_tool)) = llm_verdict"
    by (simp add: verbose_llm_def cleanJSON_def trim_def is_space_def last_index_of_def
          llm_verdict_def)
  have verdict: "parse demo_platform llm_verdict = Some (JObj [(''isMalicious'', JBool True), (''maliciousMatchScore'', JNum 0.875),
              (''toolNameDescriptionMatchScore'', JNum 0.25), (''reason'', JStr ''mismatch'')])"
    by (simp add: demo_defs)
  have cond: "js_gt demo_platform
     (get_prop (the (parse demo_platform (cleanJSON (the (verbose_llm weather_tool)))))
        ''maliciousMatchScore'') 0.75"
    by (simp add: clean verdict js_gt_def)
  have nm: "prop_of weather_tool ''name'' = Inr (Some (JStr ''get_weather''))"
    by (simp add: weather_tool_def)
  have llm: "verbose_llm weather_tool = Some (''Verdict: '' @ llm_verdict @ '' (end)'')"
    by (simp add: verbose_llm_def)
  have clean2: "cleanJSON (''Verdict: '' @ llm_verdict @ '' (end)'') = llm_verdict"
    using clean by (simp add: llm)
  have run: "validateTool demo_platform verbose_llm 5000 ''tok'' weather_tool demo_ctx
               = Inr (reportToolThreat demo_platform 5000 ''tok'' weather_tool
                        (JObj [(''isMalicious'', JBool True), (''maliciousMatchScore'', JNum 0.875),
              (''toolNameDescriptionMatchScore'', JNum 0.25), (''reason'', JStr ''mismatch'')]) demo_ctx)"
    by (simp add: validateTool_def nm llm clean2[simplified] verdict js_gt_def)
  have md: "map (event_metadata \<circ> maliciousEvent)
              (reportToolThreat demo_platform 5000 ''tok'' weather_tool (JObj [(''isMalicious'', JBool True), (''maliciousMatchScore'', JNum 0.875),
              (''toolNameDescriptionMatchScore'', JNum 0.25), (''reason'', JStr ''mismatch'')]) demo_ctx)
            = [[(''countryCode'', JStr ''IN'')]]"
    by (simp add: reportToolThreat_def reportThreat_def buildMaliciousEvent_def Let_def)
  have nokey: "map_of [(''countryCode'', JStr ''IN'')] ''policy_id'' = None"
    by simp
  have posted: "map (event_metadata \<circ> maliciousEvent)
         (projr (validateTool demo_platform verbose_llm 5000 ''tok'' weather_tool demo_ctx))
       = [[(''countryCode'', JStr ''IN'')]]"
    by (simp only: run sum.sel md)
  from cond posted nokey show ?thesis
    by (intro conjI)
qed


section \<open>The audit map\<close>

lemma last_entry_named_snoc:
  "last_entry_named n (entries @ [e]) =
     (case e of
        None \<Rightarrow> last_entry_named n entries
      | Some q \<Rightarrow> if resourceName q = n then Some q else last_entry_named n entries)"
  by (simp add: last_entry_named_def split: option.splits)

lemma store_policy_apply:
  "store_policy tab e n =
     (case e of
        None \<Rightarrow> tab n
      | Some q \<Rightarrow> if resourceName q \<noteq> [] \<and> resourceName q \<noteq> ''__proto__'' \<and> resourceName q = n
                  then Some q else tab n)"
  by (simp add: store_policy_def assign_key_def split: option.splits)

lemma foldl_store_policy:
  "foldl store_policy tab entries n =
     (if n = [] \<or> n = ''__proto__'' then tab n
      else case last_entry_named n entries of None \<Rightarrow> tab n | Some q \<Rightarrow> Some q)"
proof (induction entries rule: rev_induct)
  case Nil
  show ?case
    by (simp add: last_entry_named_def)
next
  case (snoc e entries)
  define g where "g = foldl store_policy tab entries"
  have ih: "g n = (if n = [] \<or> n = ''__proto__'' then tab n
                   else case last_entry_named n entries of None \<Rightarrow> tab n | Some q \<Rightarrow> Some q)"
    using snoc.IH by (simp only: g_def)
  have step: "foldl store_policy tab (entries @ [e]) n = store_policy g e n"
    by (simp add: g_def)
  have lhs: "foldl store_policy tab (entries @ [e]) n =
               (case e of
                  None \<Rightarrow> g n
                | Some q \<Rightarrow> if resourceName q \<noteq> [] \<and> resourceName q \<noteq> ''__proto__''
                               \<and> resourceName q = n
                            then Some q else g n)"
    by (simp only: step store_policy_apply)
  show ?case
    unfolding lhs last_entry_named_snoc using ih
    by (cases e) (auto split: if_splits)
qed

lemma last_entry_named_sound:
  "last_entry_named n entries = Some q \<Longrightarrow> Some q \<in> set entries \<and> resourceName q = n"
  by (induction entries rule: rev_induct)
     (auto simp add: last_entry_named_snoc last_entry_named_def split: option.splits if_splits)

lemma last_entry_named_complete:
  "Some p \<in> set entries \<Longrightarrow> \<exists>q. last_entry_named (resourceName p) entries = Some q"
  by (induction entries rule: rev_induct)
     (auto simp add: last_entry_named_snoc split: option.splits)

text \<open>
  Claim C4 asks that the audit map holds every entry under its lowercased resource name.
  \<open>fetchMcpAuditInfo\<close> stores an entry under its \<open>resourceName\<close> as returned: the entry
  \<open>Delete_All\<close> has a non-empty name, is found under \<open>Delete_All\<close>, and nothing is
  stored under \<open>delete_all\<close>.
\<close>

theorem fetchMcpAuditInfo_lowercase_counterexample:
  "resourceName mixed_case_policy \<noteq> []
   \<and> toLowerCase (resourceName mixed_case_policy) = ''delete_all''
   \<and> fetchMcpAuditInfo (Body (Some [Some mixed_case_policy]))
         (toLowerCase (resourceName mixed_case_policy)) = None
   \<and> fetchMcpAuditInfo (Body (Some [Some mixed_case_policy])) ''Delete_All''
       = Some mixed_case_policy"
proof -
  have nm: "resourceName mixed_case_policy = ''Delete_All''"
    by (simp add: mixed_case_policy_def)
  have low: "toLowerCase ''Delete_All'' = ''delete_all''"
    by (simp add: toLowerCase_def lower_char_def)
  have miss: "fetchMcpAuditInfo (Body (Some [Some mixed_case_policy])) ''delete_all'' = None"
    by (simp add: fetchMcpAuditInfo_def list_or_empty_def store_policy_def assign_key_def nm)
  have own: "fetchMcpAuditInfo (Body (Some [Some mixed_case_policy])) ''Delete_All''
               = Some mixed_case_policy"
    by (simp add: fetchMcpAuditInfo_def list_or_empty_def store_policy_def assign_key_def nm)
  show ?thesis
    by (simp add: nm low miss own)
qed

text \<open>
  Claim C4, as amended. The map produced by \<open>fetchMcpAuditInfo\<close> is keyed by the resource
  name as the backend returned it: under every name other than the empty one and
  \<open>__proto__\<close> it holds the last entry of the list with that name, and it has no other
  key. So for every entry with such a name the map has an entry of the list with the same
  name under that name, and it is that very entry when no other entry shares its name.
\<close>

theorem fetchMcpAuditInfo_keyed_by_name:
  assumes "Some p \<in> set entries"
    and "resourceName p \<noteq> []" and "resourceName p \<noteq> ''__proto__''"
  shows "(\<forall>n. fetchMcpAuditInfo (Body (Some entries)) n =
               (if n = [] \<or> n = ''__proto__'' then None else last_entry_named n entries))
         \<and> (\<exists>q. Some q \<in> set entries \<and> resourceName q = resourceName p
                 \<and> fetchMcpAuditInfo (Body (Some entries)) (resourceName p) = Some q)
         \<and> ((\<forall>q. Some q \<in> set entries \<and> resourceName q = resourceName p \<longrightarrow> q = p)
              \<longrightarrow> fetchMcpAuditInfo (Body (Some entries)) (resourceName p) = Some p)"
proof -
  have run: "fetchMcpAuditInfo (Body (Some entries)) n =
               (if n = [] \<or> n = ''__proto__'' then None else last_entry_named n entries)" for n
    by (simp add: fetchMcpAuditInfo_def list_or_empty_def foldl_store_policy
          split: option.splits)
  have at_p: "fetchMcpAuditInfo (Body (Some entries)) (resourceName p)
                = last_entry_named (resourceName p) entries"
    using assms(2,3) by (simp add: run)
  obtain q where q: "last_entry_named (resourceName p) entries = Some q"
    using last_entry_named_complete[OF assms(1)] by blast
  have qs: "Some q \<in> set entries \<and> resourceName q = resourceName p"
    using last_entry_named_sound[OF q] .
  have some: "\<exists>q. Some q \<in> set entries \<and> resourceName q = resourceName p
                 \<and> fetchMcpAuditInfo (Body (Some entries)) (resourceName p) = Some q"
    using qs q at_p by auto
  have only: "(\<forall>q. Some q \<in> set entries \<and> resourceName q = resourceName p \<longrightarrow> q = p)
              \<longrightarrow> fetchMcpAuditInfo (Body (Some entries)) (resourceName p) = Some p"
    using qs q at_p by auto
  from run some only show ?thesis
    by (intro conjI allI)
qed

theorem fetchMcpAuditInfo_keyed_by_name_witness:
  "fetchMcpAuditInfo (Body (Some [Some superseded_policy, None, Some mixed_case_policy]))
       ''Delete_All'' = Some mixed_case_policy
   \<and> fetchMcpAuditInfo (Body (Some [Some superseded_policy, None, Some mixed_case_policy]))
       ''delete_all'' = None
   \<and> fetchMcpAuditInfo (Body (Some [None, Some mixed_case_policy])) ''Delete_All''
       = Some mixed_case_policy"
proof -
  have nm: "resourceName mixed_case_policy = ''Delete_All''"
    by (simp add: mixed_case_policy_def)
  have nm2: "resourceName superseded_policy = ''Delete_All''"
    by (simp add: superseded_policy_def)
  have mem: "Some mixed_case_policy \<in> set [Some superseded_policy, None, Some mixed_case_policy]"
    by simp
  have ne: "resourceName mixed_case_policy \<noteq> []"
    and np: "resourceName mixed_case_policy \<noteq> ''__proto__''"
    by (simp_all add: nm)
  note both = fetchMcpAuditInfo_keyed_by_name[OF mem ne np, THEN conjunct1, rule_format]
  have a: "fetchMcpAuditInfo (Body (Some [Some superseded_policy, None, Some mixed_case_policy]))
             ''Delete_All'' = Some mixed_case_policy"
    by (simp add: both last_entry_named_def nm nm2)
  have b: "fetchMcpAuditInfo (Body (Some [Some superseded_policy, None, Some mixed_case_policy]))
             ''delete_all'' = None"
    by (simp add: both last_entry_named_def nm nm2)
  have mem1: "Some mixed_case_policy \<in> set [None, Some mixed_case_policy]"
    by simp
  have uniq: "\<forall>q. Some q \<in> set [None, Some mixed_case_policy]
                 \<and> resourceName q = resourceName mixed_case_policy \<longrightarrow> q = mixed_case_policy"
    by simp
  have c: "fetchMcpAuditInfo (Body (Some [None, Some mixed_case_policy])) ''Delete_All''
             = Some mixed_case_policy"
    using fetchMcpAuditInfo_keyed_by_name[OF mem1 ne np, THEN conjunct2, THEN conjunct2] uniq
    by (simp add: nm)
  from a b c show ?thesis
    by (intro conjI)
qed


end
